theory Spec2Isabelle
  imports Complex_Main "HOL-Library.AList"
begin

section \<open>Python values, exceptions and objects\<close>

text \<open>
  The repository consists of two Jupyter notebooks, \<^verbatim>\<open>cookbook/oracleai_demo.ipynb\<close> and
  \<^verbatim>\<open>docs/docs/integrations/text_embedding/spacy_embedding.ipynb\<close>. Their code cells call
  libraries (python-oracledb, and the Oracle AI and spaCy integrations of langchain). The
  code of the libraries is not among the sources: every call into them is a parameter of
  the model (the record \<open>world\<close> below), and the cells are translated statement by statement.
  Console output (\<^verbatim>\<open>print\<close>) and \<^verbatim>\<open>import\<close> statements are left out.

  Values whose dynamic type the cells do not fix (dictionary values, the elements of the
  lists that \<^verbatim>\<open>split_text\<close> and \<^verbatim>\<open>get_summary\<close> return) are \<open>pyval\<close>: the source applies
  \<^verbatim>\<open>str(...)\<close> and \<^verbatim>\<open>+\<close> to them.
\<close>

datatype pyval = PStr string | PInt int | PNone

text \<open>A Python \<^verbatim>\<open>dict\<close> with string keys, in insertion order.\<close>

type_synonym dict = "(string \<times> pyval) list"

datatype exn =
    KeyError string
  | IndexError
  | TypeError
  | LibraryError string

text \<open>Objects created by the libraries (connections, cursors, loaders, ...) are opaque.\<close>

type_synonym handle = nat

text \<open>
  A \<^verbatim>\<open>langchain_core.documents.Document\<close>: the text, and a reference to its metadata
  dictionary, which is a mutable object of its own.
\<close>

record document =
  page_content :: string
  metadata :: nat

text \<open>
  The SQL text passed to \<^verbatim>\<open>cursor.execute\<close>. The two long PL/SQL blocks (creating the demo
  user, creating the credentials) are named; the one-line statements are kept as text.
\<close>

datatype sql = Sql string | Plsql_Create_Demo_User | Plsql_Create_Credentials

datatype distance_strategy =
  EUCLIDEAN_DISTANCE | MAX_INNER_PRODUCT | DOT_PRODUCT | JACCARD | COSINE

datatype search_method =
  Similarity_Search | Similarity_Search_With_Score | Max_Marginal_Relevance_Search

text \<open>The \<^verbatim>\<open>filter\<close> argument of a search: \<^verbatim>\<open>{"document_id": ["1"]}\<close>.\<close>

type_synonym search_filter = "(string \<times> string list) list"

section \<open>External calls\<close>

text \<open>
  One constructor per library entry point that the notebooks call, with the arguments of
  the call. \<open>Enter\<close> and \<open>Exit\<close> are the \<^verbatim>\<open>__enter__\<close> and \<^verbatim>\<open>__exit__\<close> calls of a
  \<^verbatim>\<open>with\<close> statement; \<open>Exit\<close> carries the exception that is leaving the block, if any.
\<close>

datatype call =
    Connect string string string
  | Enter handle
  | Exit handle "exn option"
  | Cursor handle
  | Execute handle sql
  | Executemany handle sql "(int \<times> string) list"
  | Commit handle
  | Load_Onnx_Model handle string string string
  | OracleDocLoader handle dict
  | Load handle
  | OracleSummary handle dict "string option"
  | Get_Summary handle string
  | OracleTextSplitter handle dict
  | Split_Text handle string
  | OracleEmbeddings handle dict "string option"
  | Embed_Query handle pyval
  | From_Documents "(string \<times> dict) list" handle handle string distance_strategy
  | Create_Index handle handle dict
  | Search handle search_method string nat "(nat \<times> real) option" "search_filter option"
  | SpacyEmbeddings string
  | Embed_Documents handle "string list"

text \<open>
  What the libraries answer: for each entry point, an exception or a value. An answer
  depends on the entry point and its arguments only, not on the calls made before. Embedding
  vectors are lists of floats that the notebooks never inspect; their type is the
  parameter \<open>'e\<close>. The result of a search is only printed. \<open>ctx_exit\<close> returns nothing:
  the \<^verbatim>\<open>__exit__\<close> methods of python-oracledb close the object and return \<^verbatim>\<open>None\<close>, so
  they do not swallow an exception (they may raise one of their own). The last field,
  \<open>embed_document\<close>, is the embedding of one text inside the batch call of the spaCy
  integration, which is modelled below.
\<close>

record 'e world =
  connect :: "string \<Rightarrow> string \<Rightarrow> string \<Rightarrow> exn + handle"
  ctx_enter :: "handle \<Rightarrow> exn + handle"
  ctx_exit :: "handle \<Rightarrow> exn option \<Rightarrow> exn + unit"
  cursor :: "handle \<Rightarrow> exn + handle"
  execute :: "handle \<Rightarrow> sql \<Rightarrow> exn + unit"
  executemany :: "handle \<Rightarrow> sql \<Rightarrow> (int \<times> string) list \<Rightarrow> exn + unit"
  commit :: "handle \<Rightarrow> exn + unit"
  load_onnx_model :: "handle \<Rightarrow> string \<Rightarrow> string \<Rightarrow> string \<Rightarrow> exn + unit"
  new_OracleDocLoader :: "handle \<Rightarrow> dict \<Rightarrow> exn + handle"
  load :: "handle \<Rightarrow> exn + (string \<times> dict) list"
  new_OracleSummary :: "handle \<Rightarrow> dict \<Rightarrow> string option \<Rightarrow> exn + handle"
  get_summary :: "handle \<Rightarrow> string \<Rightarrow> exn + pyval list"
  new_OracleTextSplitter :: "handle \<Rightarrow> dict \<Rightarrow> exn + handle"
  split_text :: "handle \<Rightarrow> string \<Rightarrow> exn + pyval list"
  new_OracleEmbeddings :: "handle \<Rightarrow> dict \<Rightarrow> string option \<Rightarrow> exn + handle"
  embed_query :: "handle \<Rightarrow> pyval \<Rightarrow> exn + 'e"
  from_documents ::
    "(string \<times> dict) list \<Rightarrow> handle \<Rightarrow> handle \<Rightarrow> string \<Rightarrow> distance_strategy \<Rightarrow> exn + handle"
  create_index :: "handle \<Rightarrow> handle \<Rightarrow> dict \<Rightarrow> exn + unit"
  search ::
    "handle \<Rightarrow> search_method \<Rightarrow> string \<Rightarrow> nat \<Rightarrow> (nat \<times> real) option \<Rightarrow>
     search_filter option \<Rightarrow> exn + unit"
  new_SpacyEmbeddings :: "string \<Rightarrow> exn + handle"
  embed_document :: "handle \<Rightarrow> string \<Rightarrow> exn + 'e"

text \<open>
  Modelled from the spec: the batch call of the standalone embedding API
  (\<^verbatim>\<open>SpacyEmbeddings.embed_documents\<close>), which belongs to the langchain code base but whose
  code is not among the two notebooks. The specification describes it as the batch call
  that maps a list of texts to one embedding per text. Here it embeds the texts one after
  the other, in order, and raises the first exception that embedding a text raises; how a
  single text of a batch is embedded is the field \<open>embed_document\<close> of the world.
\<close>

fun embed_documents :: "'e world \<Rightarrow> handle \<Rightarrow> string list \<Rightarrow> exn + 'e list" where
  "embed_documents w embedder [] = Inr []"
| "embed_documents w embedder (t # ts) =
     (case embed_document w embedder t of
        Inl e \<Rightarrow> Inl e
      | Inr v \<Rightarrow>
          (case embed_documents w embedder ts of
             Inl e \<Rightarrow> Inl e
           | Inr vs \<Rightarrow> Inr (v # vs)))"

section \<open>Running a cell\<close>

text \<open>
  A run is the list of external calls made, in order, and how the run ended: with an
  uncaught exception or with a value. After a call that raises, no further statement runs;
  only the \<^verbatim>\<open>__exit__\<close> of the \<^verbatim>\<open>with\<close> blocks that are being left is still called.
\<close>

type_synonym 'a run = "call list \<times> (exn + 'a)"

definition calls :: "'a run \<Rightarrow> call list" where
  "calls r = fst r"

definition outcome :: "'a run \<Rightarrow> exn + 'a" where
  "outcome r = snd r"

definition ret :: "'a \<Rightarrow> 'a run" where
  "ret x = ([], Inr x)"

definition raise :: "exn \<Rightarrow> 'a run" where
  "raise e = ([], Inl e)"

definition invoke :: "call \<Rightarrow> exn + 'a \<Rightarrow> 'a run" where
  "invoke c answer = ([c], answer)"

text \<open>Sequencing of statements: the rest runs only if the first part raised nothing.\<close>

definition andthen :: "'a run \<Rightarrow> ('a \<Rightarrow> 'b run) \<Rightarrow> 'b run" where
  "andthen m f =
     (case snd m of
        Inl e \<Rightarrow> (fst m, Inl e)
      | Inr x \<Rightarrow> (fst m @ fst (f x), snd (f x)))"

text \<open>\<^verbatim>\<open>for x in xs: body\<close>, where the body updates the variables \<open>s\<close>.\<close>

fun for_each :: "'a list \<Rightarrow> ('a \<Rightarrow> 's \<Rightarrow> 's run) \<Rightarrow> 's \<Rightarrow> 's run" where
  "for_each [] body s = ret s"
| "for_each (x # xs) body s = andthen (body x s) (for_each xs body)"

text \<open>\<^verbatim>\<open>enumerate(xs, start=n)\<close>.\<close>

fun enumerate_from :: "nat \<Rightarrow> 'a list \<Rightarrow> (nat \<times> 'a) list" where
  "enumerate_from n [] = []"
| "enumerate_from n (x # xs) = (n, x) # enumerate_from (Suc n) xs"

section \<open>Python primitives used by the cells\<close>

text \<open>\<^verbatim>\<open>str(n)\<close> for an integer: decimal digits, with a minus sign when negative.\<close>

definition digit_char :: "nat \<Rightarrow> char" where
  "digit_char d = ''0123456789'' ! d"

fun str_nat :: "nat \<Rightarrow> string" where
  "str_nat n = (if n < 10 then [digit_char n] else str_nat (n div 10) @ [digit_char (n mod 10)])"

declare str_nat.simps [simp del]

fun py_str :: "pyval \<Rightarrow> string" where
  "py_str (PStr s) = s"
| "py_str (PInt i) = (if i < 0 then ''-'' @ str_nat (nat (- i)) else str_nat (nat i))"
| "py_str PNone = ''None''"

text \<open>\<^verbatim>\<open>v + s\<close> for a string \<open>s\<close>: concatenation when \<open>v\<close> is a string, TypeError otherwise.\<close>

fun py_add_str :: "pyval \<Rightarrow> string \<Rightarrow> string run" where
  "py_add_str (PStr t) s = ret (t @ s)"
| "py_add_str (PInt i) s = raise TypeError"
| "py_add_str PNone s = raise TypeError"

text \<open>\<^verbatim>\<open>xs[i]\<close> for a list and an index \<open>i \<ge> 0\<close>.\<close>

definition list_getitem :: "'a list \<Rightarrow> nat \<Rightarrow> 'a run" where
  "list_getitem xs i = (if i < length xs then ret (xs ! i) else raise IndexError)"

text \<open>
  The dictionaries that documents refer to live in a heap: \<open>objects\<close> maps a reference to
  the dictionary stored there, and \<open>fresh\<close> is the next unused reference.
\<close>

record heap =
  objects :: "nat \<Rightarrow> dict"
  fresh :: nat

definition empty_heap :: heap where
  "empty_heap = \<lparr>objects = (\<lambda>_. []), fresh = 0\<rparr>"

definition new_dict :: "heap \<Rightarrow> dict \<Rightarrow> heap \<times> nat" where
  "new_dict h d = (h\<lparr>objects := (objects h)(fresh h := d), fresh := fresh h + 1\<rparr>, fresh h)"

text \<open>\<^verbatim>\<open>d.copy()\<close>: a new dictionary with the same items.\<close>

definition dict_copy :: "heap \<Rightarrow> nat \<Rightarrow> heap \<times> nat" where
  "dict_copy h r = new_dict h (objects h r)"

text \<open>\<^verbatim>\<open>d[k]\<close>.\<close>

definition dict_getitem :: "heap \<Rightarrow> nat \<Rightarrow> string \<Rightarrow> pyval run" where
  "dict_getitem h r k = (case map_of (objects h r) k of None \<Rightarrow> raise (KeyError k) | Some v \<Rightarrow> ret v)"

text \<open>\<^verbatim>\<open>d[k] = v\<close>: an existing key keeps its place, a new key goes last.\<close>

definition dict_setitem :: "heap \<Rightarrow> nat \<Rightarrow> string \<Rightarrow> pyval \<Rightarrow> heap" where
  "dict_setitem h r k v = h\<lparr>objects := (objects h)(r := AList.update k v (objects h r))\<rparr>"

text \<open>The documents that \<^verbatim>\<open>loader.load()\<close> returns are new objects, each with its own metadata.\<close>

fun new_documents :: "heap \<Rightarrow> (string \<times> dict) list \<Rightarrow> heap \<times> document list" where
  "new_documents h [] = (h, [])"
| "new_documents h ((text, md) # rest) =
     (case new_dict h md of (h1, r) \<Rightarrow>
      case new_documents h1 rest of (h2, ds) \<Rightarrow>
        (h2, \<lparr>page_content = text, metadata = r\<rparr> # ds))"

text \<open>
  \<^verbatim>\<open>with mgr as v: body\<close>. The manager's \<^verbatim>\<open>__exit__\<close> runs when the body is left, with the
  exception that is leaving it, if any; the exception then continues, unless \<^verbatim>\<open>__exit__\<close>
  raised another one.
\<close>

definition with_as :: "'e world \<Rightarrow> handle run \<Rightarrow> (handle \<Rightarrow> 'a run) \<Rightarrow> 'a run" where
  "with_as w mgr body =
     andthen mgr (\<lambda>m.
     andthen (invoke (Enter m) (ctx_enter w m)) (\<lambda>v.
     case outcome (body v) of
       Inl e \<Rightarrow>
         andthen (calls (body v), Inr ()) (\<lambda>_.
         andthen (invoke (Exit m (Some e)) (ctx_exit w m (Some e))) (\<lambda>_.
         raise e))
     | Inr x \<Rightarrow>
         andthen (calls (body v), Inr ()) (\<lambda>_.
         andthen (invoke (Exit m None) (ctx_exit w m None)) (\<lambda>_.
         ret x))))"

section \<open>The library calls, as the cells make them\<close>

text \<open>Each call is recorded with its arguments and answered by the world.\<close>

definition call_connect :: "'e world \<Rightarrow> string \<Rightarrow> string \<Rightarrow> string \<Rightarrow> handle run" where
  "call_connect w user password dsn =
     invoke (Connect user password dsn) (connect w user password dsn)"

definition call_cursor :: "'e world \<Rightarrow> handle \<Rightarrow> handle run" where
  "call_cursor w connection = invoke (Cursor connection) (cursor w connection)"

definition call_execute :: "'e world \<Rightarrow> handle \<Rightarrow> sql \<Rightarrow> unit run" where
  "call_execute w cur stmt = invoke (Execute cur stmt) (execute w cur stmt)"

definition call_executemany ::
  "'e world \<Rightarrow> handle \<Rightarrow> sql \<Rightarrow> (int \<times> string) list \<Rightarrow> unit run" where
  "call_executemany w cur stmt rows =
     invoke (Executemany cur stmt rows) (executemany w cur stmt rows)"

definition call_commit :: "'e world \<Rightarrow> handle \<Rightarrow> unit run" where
  "call_commit w connection = invoke (Commit connection) (commit w connection)"

definition call_load_onnx_model ::
  "'e world \<Rightarrow> handle \<Rightarrow> string \<Rightarrow> string \<Rightarrow> string \<Rightarrow> unit run" where
  "call_load_onnx_model w connection dir file name =
     invoke (Load_Onnx_Model connection dir file name)
       (load_onnx_model w connection dir file name)"

definition call_OracleDocLoader :: "'e world \<Rightarrow> handle \<Rightarrow> dict \<Rightarrow> handle run" where
  "call_OracleDocLoader w conn params =
     invoke (OracleDocLoader conn params) (new_OracleDocLoader w conn params)"

definition call_load :: "'e world \<Rightarrow> handle \<Rightarrow> (string \<times> dict) list run" where
  "call_load w loader = invoke (Load loader) (load w loader)"

definition call_OracleSummary ::
  "'e world \<Rightarrow> handle \<Rightarrow> dict \<Rightarrow> string option \<Rightarrow> handle run" where
  "call_OracleSummary w conn params proxy =
     invoke (OracleSummary conn params proxy) (new_OracleSummary w conn params proxy)"

definition call_get_summary :: "'e world \<Rightarrow> handle \<Rightarrow> string \<Rightarrow> pyval list run" where
  "call_get_summary w summ text = invoke (Get_Summary summ text) (get_summary w summ text)"

definition call_OracleTextSplitter :: "'e world \<Rightarrow> handle \<Rightarrow> dict \<Rightarrow> handle run" where
  "call_OracleTextSplitter w conn params =
     invoke (OracleTextSplitter conn params) (new_OracleTextSplitter w conn params)"

definition call_split_text :: "'e world \<Rightarrow> handle \<Rightarrow> string \<Rightarrow> pyval list run" where
  "call_split_text w splitter text =
     invoke (Split_Text splitter text) (split_text w splitter text)"

definition call_OracleEmbeddings ::
  "'e world \<Rightarrow> handle \<Rightarrow> dict \<Rightarrow> string option \<Rightarrow> handle run" where
  "call_OracleEmbeddings w conn params proxy =
     invoke (OracleEmbeddings conn params proxy) (new_OracleEmbeddings w conn params proxy)"

definition call_embed_query :: "'e world \<Rightarrow> handle \<Rightarrow> pyval \<Rightarrow> 'e run" where
  "call_embed_query w embedder text =
     invoke (Embed_Query embedder text) (embed_query w embedder text)"

definition call_from_documents ::
  "'e world \<Rightarrow> (string \<times> dict) list \<Rightarrow> handle \<Rightarrow> handle \<Rightarrow> string \<Rightarrow> distance_strategy \<Rightarrow>
   handle run" where
  "call_from_documents w documents embedder client table_name strategy =
     invoke (From_Documents documents embedder client table_name strategy)
       (from_documents w documents embedder client table_name strategy)"

definition call_create_index :: "'e world \<Rightarrow> handle \<Rightarrow> handle \<Rightarrow> dict \<Rightarrow> unit run" where
  "call_create_index w connection vectorstore params =
     invoke (Create_Index connection vectorstore params)
       (create_index w connection vectorstore params)"

definition call_search ::
  "'e world \<Rightarrow> handle \<Rightarrow> search_method \<Rightarrow> string \<Rightarrow> nat \<Rightarrow> (nat \<times> real) option \<Rightarrow>
   search_filter option \<Rightarrow> unit run" where
  "call_search w vectorstore method q k mmr flt =
     invoke (Search vectorstore method q k mmr flt) (search w vectorstore method q k mmr flt)"

definition call_SpacyEmbeddings :: "'e world \<Rightarrow> string \<Rightarrow> handle run" where
  "call_SpacyEmbeddings w model_name =
     invoke (SpacyEmbeddings model_name) (new_SpacyEmbeddings w model_name)"

definition call_embed_documents :: "'e world \<Rightarrow> handle \<Rightarrow> string list \<Rightarrow> 'e list run" where
  "call_embed_documents w embedder ts =
     invoke (Embed_Documents embedder ts) (embed_documents w embedder ts)"

section \<open>oracleai\_demo: setting up the database\<close>

text \<open>
  Create Demo User:
  \<^verbatim>\<open>
  username = "SYSTEM"; password = ""; dsn = ""
  with oracledb.connect(user=username, password=password, dsn=dsn) as connection:
      with connection.cursor() as cursor:
          cursor.execute("""begin ... end;""")
  \<close>
\<close>

definition create_demo_user :: "'e world \<Rightarrow> unit run" where
  "create_demo_user w =
     with_as w (call_connect w ''SYSTEM'' [] []) (\<lambda>connection.
       with_as w (call_cursor w connection) (\<lambda>cursor.
         call_execute w cursor Plsql_Create_Demo_User))"

text \<open>
  Connect to Demo User:
  \<^verbatim>\<open>
  username = "testuser"; password = ""; dsn = ""
  connection = oracledb.connect(user=username, password=password, dsn=dsn)
  \<close>
\<close>

definition connect_to_demo_user :: "'e world \<Rightarrow> handle run" where
  "connect_to_demo_user w = call_connect w ''testuser'' [] []"

text \<open>
  Populate a Demo Table:
  \<^verbatim>\<open>
  with connection.cursor() as cursor:
      cursor.execute("""drop table if exists demo_tab""")
      cursor.execute("""create table demo_tab (id number, data clob)""")
      cursor.executemany("""insert into demo_tab values (:1, :2)""", rows_to_insert)
  connection.commit()
  \<close>
\<close>

definition rows_to_insert :: "(int \<times> string) list" where
  "rows_to_insert =
    [(1,
       ''If the answer to any preceding questions is yes, then the database stops the sea'' @
       ''rch and allocates space from the specified tablespace; otherwise, space is alloc'' @
       ''ated from the database default shared temporary tablespace.''),
     (2,
       ''A tablespace can be online (accessible) or offline (not accessible) whenever the'' @
       '' database is open.'' @ [CHR 0x0A] @
       ''A tablespace is usually online so that its data is available to users. The SYSTE'' @
       ''M tablespace and temporary tablespaces cannot be taken offline.''),
     (3,
       ''The database stores LOBs differently from other data types. Creating a LOB colum'' @
       ''n implicitly creates a LOB segment and a LOB index. The tablespace containing th'' @
       ''e LOB segment and LOB index, which are always stored together, may be different '' @
       ''from the tablespace containing the table.'' @ [CHR 0x0A] @
       ''Sometimes the database can store small amounts of LOB data in the table itself r'' @
       ''ather than in a separate LOB segment.'')]"

definition populate_demo_table :: "'e world \<Rightarrow> handle \<Rightarrow> unit run" where
  "populate_demo_table w connection =
     andthen (with_as w (call_cursor w connection) (\<lambda>cursor.
       andthen (call_execute w cursor (Sql ''drop table if exists demo_tab'')) (\<lambda>_.
       andthen (call_execute w cursor (Sql ''create table demo_tab (id number, data clob)''))
         (\<lambda>_.
       call_executemany w cursor (Sql ''insert into demo_tab values (:1, :2)'')
         rows_to_insert)))) (\<lambda>_.
     call_commit w connection)"

text \<open>
  Load the ONNX Model:
  \<^verbatim>\<open>
  onnx_dir = "DEMO_PY_DIR"; onnx_file = "tinybert.onnx"; model_name = "demo_model"
  OracleEmbeddings.load_onnx_model(connection, onnx_dir, onnx_file, model_name)
  \<close>
\<close>

definition load_the_onnx_model :: "'e world \<Rightarrow> handle \<Rightarrow> unit run" where
  "load_the_onnx_model w connection =
     call_load_onnx_model w connection ''DEMO_PY_DIR'' ''tinybert.onnx'' ''demo_model''"

text \<open>
  Create Credential:
  \<^verbatim>\<open>
  with connection.cursor() as cursor:
      cursor.execute("""declare ... end;""")
  \<close>
\<close>

definition create_credential :: "'e world \<Rightarrow> handle \<Rightarrow> unit run" where
  "create_credential w connection =
     with_as w (call_cursor w connection) (\<lambda>cursor.
       call_execute w cursor Plsql_Create_Credentials)"

section \<open>oracleai\_demo: the document processing cells\<close>

text \<open>
  Load Documents:
  \<^verbatim>\<open>
  loader_params = {"owner": "testuser", "tablename": "demo_tab", "colname": "data"}
  loader = OracleDocLoader(conn=connection, params=loader_params)
  docs = loader.load()
  \<close>
\<close>

definition loader_params :: dict where
  "loader_params =
     [(''owner'', PStr ''testuser''), (''tablename'', PStr ''demo_tab''),
      (''colname'', PStr ''data'')]"

definition load_documents :: "'e world \<Rightarrow> heap \<Rightarrow> handle \<Rightarrow> (heap \<times> document list) run" where
  "load_documents w h connection =
     andthen (call_OracleDocLoader w connection loader_params) (\<lambda>loader.
     andthen (call_load w loader) (\<lambda>loaded.
     ret (new_documents h loaded)))"

text \<open>
  Generate Summary:
  \<^verbatim>\<open>
  summary_params = {"provider": "database", "glevel": "S",
                    "numParagraphs": 1, "language": "english"}
  summ = OracleSummary(conn=connection, params=summary_params, proxy=proxy)
  list_summary = []
  for doc in docs:
      summary = summ.get_summary(doc.page_content)
      list_summary.append(summary)
  \<close>
\<close>

definition summary_params :: dict where
  "summary_params =
     [(''provider'', PStr ''database''), (''glevel'', PStr ''S''),
      (''numParagraphs'', PInt 1), (''language'', PStr ''english'')]"

definition generate_summary ::
  "'e world \<Rightarrow> handle \<Rightarrow> string \<Rightarrow> document list \<Rightarrow> pyval list list run" where
  "generate_summary w connection proxy docs =
     andthen (call_OracleSummary w connection summary_params (Some proxy)) (\<lambda>summ.
     for_each docs (\<lambda>doc list_summary.
       andthen (call_get_summary w summ (page_content doc)) (\<lambda>summary.
       ret (list_summary @ [summary]))) [])"

text \<open>
  Split Documents:
  \<^verbatim>\<open>
  splitter_params = {"normalize": "all"}
  splitter = OracleTextSplitter(conn=connection, params=splitter_params)
  list_chunks = []
  for doc in docs:
      chunks = splitter.split_text(doc.page_content)
      list_chunks.extend(chunks)
  \<close>
\<close>

definition splitter_params :: dict where
  "splitter_params = [(''normalize'', PStr ''all'')]"

definition split_documents ::
  "'e world \<Rightarrow> handle \<Rightarrow> document list \<Rightarrow> (handle \<times> pyval list) run" where
  "split_documents w connection docs =
     andthen (call_OracleTextSplitter w connection splitter_params) (\<lambda>splitter.
     andthen (for_each docs (\<lambda>doc list_chunks.
                andthen (call_split_text w splitter (page_content doc)) (\<lambda>chunks.
                ret (list_chunks @ chunks))) []) (\<lambda>list_chunks.
     ret (splitter, list_chunks)))"

text \<open>
  Generate Embeddings:
  \<^verbatim>\<open>
  embedder_params = {"provider": "database", "model": "demo_model"}
  embedder = OracleEmbeddings(conn=connection, params=embedder_params, proxy=proxy)
  embeddings = []
  for doc in docs:
      chunks = splitter.split_text(doc.page_content)
      for chunk in chunks:
          embed = embedder.embed_query(chunk)
          embeddings.append(embed)
  \<close>
\<close>

definition embedder_params :: dict where
  "embedder_params = [(''provider'', PStr ''database''), (''model'', PStr ''demo_model'')]"

definition generate_embeddings ::
  "'e world \<Rightarrow> handle \<Rightarrow> string \<Rightarrow> handle \<Rightarrow> document list \<Rightarrow> (handle \<times> 'e list) run" where
  "generate_embeddings w connection proxy splitter docs =
     andthen (call_OracleEmbeddings w connection embedder_params (Some proxy)) (\<lambda>embedder.
     andthen (for_each docs (\<lambda>doc embeddings.
                andthen (call_split_text w splitter (page_content doc)) (\<lambda>chunks.
                for_each chunks (\<lambda>chunk embeddings.
                  andthen (call_embed_query w embedder chunk) (\<lambda>embed.
                  ret (embeddings @ [embed]))) embeddings)) []) (\<lambda>embeddings.
     ret (embedder, embeddings)))"

section \<open>oracleai\_demo: the end-to-end cells\<close>

text \<open>
  The body of the inner loop of the end-to-end cell, for the document \<open>doc\<close> with number
  \<open>idx\<close> (the source's \<^verbatim>\<open>id\<close>), its summary \<open>summ\<close>, and the chunk \<open>chunk\<close> with number \<open>ic\<close>:
  \<^verbatim>\<open>
  chunk_metadata = doc.metadata.copy()
  chunk_metadata["id"] = (
      chunk_metadata["_oid"] + "$" + str(id) + "$" + str(ic)
  )
  chunk_metadata["document_id"] = str(id)
  chunk_metadata["document_summary"] = str(summ[0])
  chunks_with_mdata.append(
      Document(page_content=str(chunk), metadata=chunk_metadata)
  )
  \<close>
  The state of the loop is the heap and the list \<^verbatim>\<open>chunks_with_mdata\<close>.
\<close>

definition append_chunk ::
  "nat \<Rightarrow> document \<Rightarrow> pyval list \<Rightarrow> nat \<Rightarrow> pyval \<Rightarrow> heap \<times> document list \<Rightarrow>
   (heap \<times> document list) run" where
  "append_chunk idx doc summ ic chunk s =
     (case s of (h, chunks_with_mdata) \<Rightarrow>
      case dict_copy h (metadata doc) of (h1, chunk_metadata) \<Rightarrow>
      andthen (dict_getitem h1 chunk_metadata ''_oid'') (\<lambda>oid.
      andthen (py_add_str oid ''$'') (\<lambda>prefix.
      andthen (ret (dict_setitem h1 chunk_metadata ''id''
                 (PStr (prefix @ str_nat idx @ ''$'' @ str_nat ic)))) (\<lambda>h2.
      andthen (ret (dict_setitem h2 chunk_metadata ''document_id'' (PStr (str_nat idx))))
        (\<lambda>h3.
      andthen (list_getitem summ 0) (\<lambda>summ0.
      andthen (ret (dict_setitem h3 chunk_metadata ''document_summary''
                 (PStr (py_str summ0)))) (\<lambda>h4.
      ret (h4, chunks_with_mdata @
                 [\<lparr>page_content = py_str chunk, metadata = chunk_metadata\<rparr>]))))))))"

text \<open>
  The end-to-end cell. It assigns the four parameter dictionaries again, with the same
  literals as the cells above, and it uses the \<^verbatim>\<open>docs\<close> of the Load Documents cell: the
  loader it creates is never asked to load.
  \<^verbatim>\<open>
  username = ""; password = ""; dsn = ""
  with oracledb.connect(user=username, password=password, dsn=dsn) as connection:
      onnx_dir = "DEMO_PY_DIR"; onnx_file = "tinybert.onnx"; model_name = "demo_model"
      OracleEmbeddings.load_onnx_model(connection, onnx_dir, onnx_file, model_name)
      loader_params = {...}; summary_params = {...}
      splitter_params = {...}; embedder_params = {...}
      loader = OracleDocLoader(conn=connection, params=loader_params)
      summary = OracleSummary(conn=connection, params=summary_params)
      splitter = OracleTextSplitter(conn=connection, params=splitter_params)
      embedder = OracleEmbeddings(conn=connection, params=embedder_params)
      chunks_with_mdata = []
      for id, doc in enumerate(docs, start=1):
          summ = summary.get_summary(doc.page_content)
          chunks = splitter.split_text(doc.page_content)
          for ic, chunk in enumerate(chunks, start=1):
              ...
  \<close>
\<close>

definition e2e_loader_params :: dict where
  "e2e_loader_params =
     [(''owner'', PStr ''testuser''), (''tablename'', PStr ''demo_tab''),
      (''colname'', PStr ''data'')]"

definition e2e_summary_params :: dict where
  "e2e_summary_params =
     [(''provider'', PStr ''database''), (''glevel'', PStr ''S''),
      (''numParagraphs'', PInt 1), (''language'', PStr ''english'')]"

definition e2e_splitter_params :: dict where
  "e2e_splitter_params = [(''normalize'', PStr ''all'')]"

definition e2e_embedder_params :: dict where
  "e2e_embedder_params = [(''provider'', PStr ''database''), (''model'', PStr ''demo_model'')]"

definition process_loop ::
  "'e world \<Rightarrow> handle \<Rightarrow> handle \<Rightarrow> document list \<Rightarrow> heap \<Rightarrow> (heap \<times> document list) run" where
  "process_loop w summary splitter docs h =
     for_each (enumerate_from 1 docs) (\<lambda>(idx, doc) s.
       andthen (call_get_summary w summary (page_content doc)) (\<lambda>summ.
       andthen (call_split_text w splitter (page_content doc)) (\<lambda>chunks.
       for_each (enumerate_from 1 chunks)
         (\<lambda>(ic, chunk). append_chunk idx doc summ ic chunk) s)))
     (h, [])"

definition process_documents ::
  "'e world \<Rightarrow> heap \<Rightarrow> document list \<Rightarrow> (handle \<times> handle \<times> heap \<times> document list) run" where
  "process_documents w h docs =
     with_as w (call_connect w [] [] []) (\<lambda>connection.
       andthen (call_load_onnx_model w connection
                  ''DEMO_PY_DIR'' ''tinybert.onnx'' ''demo_model'') (\<lambda>_.
       andthen (call_OracleDocLoader w connection e2e_loader_params) (\<lambda>loader.
       andthen (call_OracleSummary w connection e2e_summary_params None) (\<lambda>summary.
       andthen (call_OracleTextSplitter w connection e2e_splitter_params) (\<lambda>splitter.
       andthen (call_OracleEmbeddings w connection e2e_embedder_params None) (\<lambda>embedder.
       andthen (process_loop w summary splitter docs h) (\<lambda>(h', chunks_with_mdata).
       ret (connection, embedder, h', chunks_with_mdata))))))))"

text \<open>
  \<^verbatim>\<open>
  vectorstore = OracleVS.from_documents(
      chunks_with_mdata, embedder, client=connection,
      table_name="oravs", distance_strategy=DistanceStrategy.DOT_PRODUCT)
  \<close>
  The call is recorded with the text and the metadata that each document has at that
  moment.
\<close>

definition create_vector_store ::
  "'e world \<Rightarrow> heap \<Rightarrow> document list \<Rightarrow> handle \<Rightarrow> handle \<Rightarrow> handle run" where
  "create_vector_store w h chunks_with_mdata embedder connection =
     call_from_documents w
       (map (\<lambda>d. (page_content d, objects h (metadata d))) chunks_with_mdata)
       embedder connection ''oravs'' DOT_PRODUCT"

text \<open>
  \<^verbatim>\<open>
  oraclevs.create_index(
      connection, vectorstore, params={"idx_name": "hnsw_oravs", "idx_type": "HNSW"})
  \<close>
\<close>

definition create_the_index :: "'e world \<Rightarrow> handle \<Rightarrow> handle \<Rightarrow> unit run" where
  "create_the_index w connection vectorstore =
     call_create_index w connection vectorstore
       [(''idx_name'', PStr ''hnsw_oravs''), (''idx_type'', PStr ''HNSW'')]"

text \<open>
  Perform Semantic Search:
  \<^verbatim>\<open>
  query = "What is Oracle AI Vector Store?"
  filter = {"document_id": ["1"]}
  print(vectorstore.similarity_search(query, 1))
  print(vectorstore.similarity_search(query, 1, filter=filter))
  print(vectorstore.similarity_search_with_score(query, 1))
  print(vectorstore.similarity_search_with_score(query, 1, filter=filter))
  print(vectorstore.max_marginal_relevance_search(query, 1, fetch_k=20, lambda_mult=0.5))
  print(vectorstore.max_marginal_relevance_search(
          query, 1, fetch_k=20, lambda_mult=0.5, filter=filter))
  \<close>
\<close>

definition query :: string where
  "query = ''What is Oracle AI Vector Store?''"

definition document_filter :: search_filter where
  "document_filter = [(''document_id'', [''1''])]"

definition perform_semantic_search :: "'e world \<Rightarrow> handle \<Rightarrow> unit run" where
  "perform_semantic_search w vectorstore =
     andthen (call_search w vectorstore Similarity_Search query 1 None None) (\<lambda>_.
     andthen (call_search w vectorstore Similarity_Search query 1 None (Some document_filter))
       (\<lambda>_.
     andthen (call_search w vectorstore Similarity_Search_With_Score query 1 None None) (\<lambda>_.
     andthen (call_search w vectorstore Similarity_Search_With_Score query 1 None
                (Some document_filter)) (\<lambda>_.
     andthen (call_search w vectorstore Max_Marginal_Relevance_Search query 1
                (Some (20, 1 / 2)) None) (\<lambda>_.
     call_search w vectorstore Max_Marginal_Relevance_Search query 1
       (Some (20, 1 / 2)) (Some document_filter))))))"

section \<open>oracleai\_demo: the notebook, cell after cell\<close>

text \<open>
  The cells run top to bottom in one namespace; a cell that raises stops the run. Between
  Load Documents and Generate Summary, and again before Generate Embeddings, a cell assigns
  \<^verbatim>\<open>proxy = ""\<close>.
\<close>

record 'e variables =
  docs_of :: "document list"
  list_summary_of :: "pyval list list"
  list_chunks_of :: "pyval list"
  embeddings_of :: "'e list"
  chunks_with_mdata_of :: "document list"
  heap_of :: heap
  vectorstore_of :: handle

definition oracleai_demo :: "'e world \<Rightarrow> 'e variables run" where
  "oracleai_demo w =
     andthen (create_demo_user w) (\<lambda>_.
     andthen (connect_to_demo_user w) (\<lambda>connection.
     andthen (populate_demo_table w connection) (\<lambda>_.
     andthen (load_the_onnx_model w connection) (\<lambda>_.
     andthen (create_credential w connection) (\<lambda>_.
     andthen (load_documents w empty_heap connection) (\<lambda>(h, docs).
     andthen (generate_summary w connection [] docs) (\<lambda>list_summary.
     andthen (split_documents w connection docs) (\<lambda>(splitter, list_chunks).
     andthen (generate_embeddings w connection [] splitter docs) (\<lambda>(embedder, embeddings).
     andthen (process_documents w h docs) (\<lambda>(connection, embedder, h', chunks_with_mdata).
     andthen (create_vector_store w h' chunks_with_mdata embedder connection) (\<lambda>vectorstore.
     andthen (create_the_index w connection vectorstore) (\<lambda>_.
     andthen (perform_semantic_search w vectorstore) (\<lambda>_.
     ret \<lparr>docs_of = docs, list_summary_of = list_summary, list_chunks_of = list_chunks,
          embeddings_of = embeddings, chunks_with_mdata_of = chunks_with_mdata,
          heap_of = h', vectorstore_of = vectorstore\<rparr>)))))))))))))"

section \<open>spacy\_embedding\<close>

text \<open>
  \<^verbatim>\<open>
  embedder = SpacyEmbeddings(model_name="en_core_web_sm")
  texts = [ ... ]
  embeddings = embedder.embed_documents(texts)
  query = "Quick foxes and lazy dogs."
  query_embedding = embedder.embed_query(query)
  \<close>
\<close>

definition texts :: "string list" where
  "texts =
     [''The quick brown fox jumps over the lazy dog.'',
      ''Pack my box with five dozen liquor jugs.'',
      ''How vexingly quick daft zebras jump!'',
      ''Bright vixens jump; dozy fowl quack.'']"

definition spacy_embedding :: "'e world \<Rightarrow> ('e list \<times> 'e) run" where
  "spacy_embedding w =
     andthen (call_SpacyEmbeddings w ''en_core_web_sm'') (\<lambda>embedder.
     andthen (call_embed_documents w embedder texts) (\<lambda>embeddings.
     andthen (call_embed_query w embedder (PStr ''Quick foxes and lazy dogs.''))
       (\<lambda>query_embedding.
     ret (embeddings, query_embedding))))"

section \<open>An example world\<close>

text \<open>
  A world in which every call succeeds, used to run the notebooks on concrete data: the
  loader returns two documents, the splitter cuts the first one in two chunks, and an
  embedding is the length of the text.
\<close>

definition example_world :: "nat world" where
  "example_world =
     \<lparr>connect = (\<lambda>user password dsn. Inr 1),
      ctx_enter = (\<lambda>m. Inr m),
      ctx_exit = (\<lambda>m e. Inr ()),
      cursor = (\<lambda>connection. Inr 2),
      execute = (\<lambda>cur stmt. Inr ()),
      executemany = (\<lambda>cur stmt rows. Inr ()),
      commit = (\<lambda>connection. Inr ()),
      load_onnx_model = (\<lambda>connection dir file name. Inr ()),
      new_OracleDocLoader = (\<lambda>conn params. Inr 3),
      load = (\<lambda>loader. Inr [(''ab cd'', [(''_oid'', PStr ''A1'')]),
                              (''ef'', [(''_oid'', PStr ''B2''), (''id'', PInt 7)])]),
      new_OracleSummary = (\<lambda>conn params proxy. Inr 4),
      get_summary = (\<lambda>summ text. Inr [PStr (''S:'' @ text)]),
      new_OracleTextSplitter = (\<lambda>conn params. Inr 5),
      split_text = (\<lambda>splitter text.
        Inr (if text = ''ab cd'' then [PStr ''ab'', PStr ''cd''] else [PStr text])),
      new_OracleEmbeddings = (\<lambda>conn params proxy. Inr 6),
      embed_query = (\<lambda>embedder text. Inr (length (py_str text))),
      from_documents = (\<lambda>documents embedder client table_name strategy. Inr 7),
      create_index = (\<lambda>connection vectorstore params. Inr ()),
      search = (\<lambda>vectorstore method q k mmr flt. Inr ()),
      new_SpacyEmbeddings = (\<lambda>model_name. Inr 8),
      embed_document = (\<lambda>embedder t. Inr (length t))\<rparr>"

definition example_docs :: "document list" where
  "example_docs =
     [\<lparr>page_content = ''ab cd'', metadata = 0\<rparr>, \<lparr>page_content = ''ef'', metadata = 1\<rparr>]"

definition example_heap :: heap where
  "example_heap =
     \<lparr>objects = (\<lambda>_. [])(0 := [(''_oid'', PStr ''A1'')],
                           1 := [(''_oid'', PStr ''B2''), (''id'', PInt 7)]),
      fresh = 2\<rparr>"

section \<open>Reading a run\<close>

text \<open>
  The steps of the chain that the specification lists: connect, load documents, summarize,
  split, embed, store, create the index, query. The other calls (cursors and SQL, loading
  the ONNX model, creating the loader, summary, splitter and embedder objects, entering and
  leaving a \<^verbatim>\<open>with\<close> block) belong to no step.
\<close>

datatype step =
  Step_Connect | Step_Load | Step_Summarize | Step_Split | Step_Embed | Step_Store |
  Step_Index | Step_Query

fun step_rank :: "step \<Rightarrow> nat" where
  "step_rank Step_Connect = 0"
| "step_rank Step_Load = 1"
| "step_rank Step_Summarize = 2"
| "step_rank Step_Split = 3"
| "step_rank Step_Embed = 4"
| "step_rank Step_Store = 5"
| "step_rank Step_Index = 6"
| "step_rank Step_Query = 7"

fun step_of :: "call \<Rightarrow> step list" where
  "step_of (Connect user password dsn) = [Step_Connect]"
| "step_of (Load loader) = [Step_Load]"
| "step_of (Get_Summary summ text) = [Step_Summarize]"
| "step_of (Split_Text splitter text) = [Step_Split]"
| "step_of (Embed_Query embedder text) = [Step_Embed]"
| "step_of (Embed_Documents embedder ts) = [Step_Embed]"
| "step_of (From_Documents documents embedder client table_name strategy) = [Step_Store]"
| "step_of (Create_Index connection vectorstore params) = [Step_Index]"
| "step_of (Search vectorstore method q k mmr flt) = [Step_Query]"
| "step_of c = []"

definition steps :: "call list \<Rightarrow> step list" where
  "steps cs = concat (map step_of cs)"

text \<open>
  The chain order as the specification states it: no step is called before a step that
  the chain lists earlier.
\<close>

definition in_chain_order :: "call list \<Rightarrow> bool" where
  "in_chain_order cs = sorted (map step_rank (steps cs))"

text \<open>The searches of a run: the method called, and whether a filter was passed.\<close>

fun search_of :: "call \<Rightarrow> (search_method \<times> bool) list" where
  "search_of (Search vectorstore method q k mmr flt) = [(method, flt \<noteq> None)]"
| "search_of c = []"

definition searches :: "call list \<Rightarrow> (search_method \<times> bool) list" where
  "searches cs = concat (map search_of cs)"

text \<open>
  The four search variants that the specification names: plain similarity search, filtered
  similarity search, scored similarity search, max-marginal-relevance search. A call of
  \<^verbatim>\<open>similarity_search\<close> is the plain variant without a filter and the filtered variant with
  one; a call of \<^verbatim>\<open>similarity_search_with_score\<close> is a scored similarity search and a call
  of \<^verbatim>\<open>max_marginal_relevance_search\<close> is a max-marginal-relevance search, whether or not
  a filter is passed.
\<close>

datatype variant =
  Plain_Similarity | Filtered_Similarity | Scored_Similarity | Max_Marginal_Relevance

fun variant_of :: "search_method \<times> bool \<Rightarrow> variant" where
  "variant_of (Similarity_Search, False) = Plain_Similarity"
| "variant_of (Similarity_Search, True) = Filtered_Similarity"
| "variant_of (Similarity_Search_With_Score, filtered) = Scored_Similarity"
| "variant_of (Max_Marginal_Relevance_Search, filtered) = Max_Marginal_Relevance"

text \<open>The search calls of the Perform Semantic Search cell, in the order of the source.\<close>

definition search_calls :: "(search_method \<times> bool) list" where
  "search_calls =
     [(Similarity_Search, False), (Similarity_Search, True),
      (Similarity_Search_With_Score, False), (Similarity_Search_With_Score, True),
      (Max_Marginal_Relevance_Search, False), (Max_Marginal_Relevance_Search, True)]"

text \<open>The configuration mappings passed when a summary object is created.\<close>

fun summary_config_of :: "call \<Rightarrow> dict list" where
  "summary_config_of (OracleSummary conn params proxy) = [params]"
| "summary_config_of c = []"

definition summary_configs :: "call list \<Rightarrow> dict list" where
  "summary_configs cs = concat (map summary_config_of cs)"

text \<open>The embedding operations of a run: batch (with its texts) or single query.\<close>

datatype embedding_call = Batch "string list" | Single pyval

fun embedding_of :: "call \<Rightarrow> embedding_call list" where
  "embedding_of (Embed_Documents embedder ts) = [Batch ts]"
| "embedding_of (Embed_Query embedder text) = [Single text]"
| "embedding_of c = []"

definition embedding_calls :: "call list \<Rightarrow> embedding_call list" where
  "embedding_calls cs = concat (map embedding_of cs)"

text \<open>The documents handed to the vector store, read from a run.\<close>

fun stored_of :: "call \<Rightarrow> (string \<times> dict) list" where
  "stored_of (From_Documents documents embedder client table_name strategy) = documents"
| "stored_of c = []"

definition stored :: "call list \<Rightarrow> (string \<times> dict) list" where
  "stored cs = concat (map stored_of cs)"

text \<open>The documents that the loader returned, read from the world.\<close>

fun loaded_of :: "'e world \<Rightarrow> call \<Rightarrow> (string \<times> dict) list" where
  "loaded_of w (Load loader) = (case load w loader of Inl e \<Rightarrow> [] | Inr documents \<Rightarrow> documents)"
| "loaded_of w c = []"

definition loaded :: "'e world \<Rightarrow> call list \<Rightarrow> (string \<times> dict) list" where
  "loaded w cs = concat (map (loaded_of w) cs)"


text \<open>A property of every call of a run.\<close>

definition every_call :: "(call \<Rightarrow> bool) \<Rightarrow> 'a run \<Rightarrow> bool" where
  "every_call P r = list_all P (calls r)"

text \<open>The exception that the world raises for a call, if it raises one.\<close>

fun raised :: "exn + 'a \<Rightarrow> exn option" where
  "raised (Inl e) = Some e"
| "raised (Inr x) = None"

fun failure :: "'e world \<Rightarrow> call \<Rightarrow> exn option" where
  "failure w (Connect user password dsn) = raised (connect w user password dsn)"
| "failure w (Enter m) = raised (ctx_enter w m)"
| "failure w (Exit m e) = raised (ctx_exit w m e)"
| "failure w (Cursor connection) = raised (cursor w connection)"
| "failure w (Execute cur stmt) = raised (execute w cur stmt)"
| "failure w (Executemany cur stmt rows) = raised (executemany w cur stmt rows)"
| "failure w (Commit connection) = raised (commit w connection)"
| "failure w (Load_Onnx_Model connection dir file name) =
     raised (load_onnx_model w connection dir file name)"
| "failure w (OracleDocLoader conn params) = raised (new_OracleDocLoader w conn params)"
| "failure w (Load loader) = raised (load w loader)"
| "failure w (OracleSummary conn params proxy) = raised (new_OracleSummary w conn params proxy)"
| "failure w (Get_Summary summ text) = raised (get_summary w summ text)"
| "failure w (OracleTextSplitter conn params) = raised (new_OracleTextSplitter w conn params)"
| "failure w (Split_Text splitter text) = raised (split_text w splitter text)"
| "failure w (OracleEmbeddings conn params proxy) =
     raised (new_OracleEmbeddings w conn params proxy)"
| "failure w (Embed_Query embedder text) = raised (embed_query w embedder text)"
| "failure w (From_Documents documents embedder client table_name strategy) =
     raised (from_documents w documents embedder client table_name strategy)"
| "failure w (Create_Index connection vectorstore params) =
     raised (create_index w connection vectorstore params)"
| "failure w (Search vectorstore method q k mmr flt) =
     raised (search w vectorstore method q k mmr flt)"
| "failure w (SpacyEmbeddings model_name) = raised (new_SpacyEmbeddings w model_name)"
| "failure w (Embed_Documents embedder ts) = raised (embed_documents w embedder ts)"

text \<open>
  A run propagates failures unchanged when every call of it that raised gives the run
  its outcome: the exception of the call, not caught and not replaced.
\<close>

definition propagates :: "'e world \<Rightarrow> 'a run \<Rightarrow> bool" where
  "propagates w r = (\<forall>c\<in>set (calls r). \<forall>e. failure w c = Some e \<longrightarrow> outcome r = Inl e)"

text \<open>The exceptions that the calls of a run raised, in the order of the calls.\<close>

definition failures :: "'e world \<Rightarrow> call list \<Rightarrow> exn list" where
  "failures w cs = concat (map (\<lambda>c. case failure w c of None \<Rightarrow> [] | Some e \<Rightarrow> [e]) cs)"

text \<open>The \<^verbatim>\<open>__exit__\<close> call of a \<^verbatim>\<open>with\<close> block that an exception is leaving.\<close>

fun is_unwinding :: "call \<Rightarrow> bool" where
  "is_unwinding (Exit m (Some e)) = True"
| "is_unwinding c = False"

text \<open>
  No recovery and no retry: after the first call that raised, the run makes no call
  other than the \<^verbatim>\<open>__exit__\<close> of the \<^verbatim>\<open>with\<close> blocks that the exception is leaving.
\<close>

fun unwinds :: "'e world \<Rightarrow> call list \<Rightarrow> bool" where
  "unwinds w [] = True"
| "unwinds w (c # cs) =
     (if failure w c = None then unwinds w cs else list_all is_unwinding cs)"

text \<open>
  A run without handlers: it unwinds after the first failure, and if any call raised,
  the run ends with the exception of the last call that raised.
\<close>

definition unhandled :: "'e world \<Rightarrow> 'a run \<Rightarrow> bool" where
  "unhandled w r =
     (unwinds w (calls r) \<and>
      (failures w (calls r) \<noteq> [] \<longrightarrow> outcome r = Inl (last (failures w (calls r)))))"

text \<open>
  The values that the notebooks hand to the libraries and get back from them: library
  objects, strings, the values of unknown dynamic type, and the other kinds of argument.
\<close>

datatype datum =
    Object handle
  | Str string
  | Val pyval
  | Dict dict
  | Statement sql
  | Rows "(int \<times> string) list"
  | Proxy "string option"
  | Count nat
  | Fetch "(nat \<times> real) option"
  | Filter "search_filter option"
  | Strategy distance_strategy
  | Texts "string list"

text \<open>
  The arguments of a call, the receiver of a method call included. The documents handed to
  \<^verbatim>\<open>OracleVS.from_documents\<close> are left out here: they are read by \<open>stored\<close>. The exception
  that \<open>Exit\<close> carries is passed by the \<^verbatim>\<open>with\<close> statement, not by the cell.
\<close>

fun arguments :: "call \<Rightarrow> datum list" where
  "arguments (Connect user password dsn) = [Str user, Str password, Str dsn]"
| "arguments (Enter m) = [Object m]"
| "arguments (Exit m e) = [Object m]"
| "arguments (Cursor connection) = [Object connection]"
| "arguments (Execute cur stmt) = [Object cur, Statement stmt]"
| "arguments (Executemany cur stmt rows) = [Object cur, Statement stmt, Rows rows]"
| "arguments (Commit connection) = [Object connection]"
| "arguments (Load_Onnx_Model connection dir file name) =
     [Object connection, Str dir, Str file, Str name]"
| "arguments (OracleDocLoader conn params) = [Object conn, Dict params]"
| "arguments (Load loader) = [Object loader]"
| "arguments (OracleSummary conn params proxy) = [Object conn, Dict params, Proxy proxy]"
| "arguments (Get_Summary summ text) = [Object summ, Str text]"
| "arguments (OracleTextSplitter conn params) = [Object conn, Dict params]"
| "arguments (Split_Text splitter text) = [Object splitter, Str text]"
| "arguments (OracleEmbeddings conn params proxy) = [Object conn, Dict params, Proxy proxy]"
| "arguments (Embed_Query embedder text) = [Object embedder, Val text]"
| "arguments (From_Documents documents embedder client table_name strategy) =
     [Object embedder, Object client, Str table_name, Strategy strategy]"
| "arguments (Create_Index connection vectorstore params) =
     [Object connection, Object vectorstore, Dict params]"
| "arguments (Search vectorstore method q k mmr flt) =
     [Object vectorstore, Str q, Count k, Fetch mmr, Filter flt]"
| "arguments (SpacyEmbeddings model_name) = [Str model_name]"
| "arguments (Embed_Documents embedder ts) = [Object embedder, Texts ts]"

text \<open>
  What a call returned, as far as a cell can hand it to a later call: the object that
  \<^verbatim>\<open>connect\<close>, \<^verbatim>\<open>cursor\<close>, \<^verbatim>\<open>__enter__\<close> or a constructor returned, the text of each loaded
  document, each chunk of a split. Summaries and embeddings are only kept.
\<close>

fun handle_result :: "exn + handle \<Rightarrow> datum list" where
  "handle_result (Inl e) = []"
| "handle_result (Inr h) = [Object h]"

fun results :: "'e world \<Rightarrow> call \<Rightarrow> datum list" where
  "results w (Connect user password dsn) = handle_result (connect w user password dsn)"
| "results w (Enter m) = handle_result (ctx_enter w m)"
| "results w (Cursor connection) = handle_result (cursor w connection)"
| "results w (OracleDocLoader conn params) = handle_result (new_OracleDocLoader w conn params)"
| "results w (Load loader) =
     (case load w loader of Inl e \<Rightarrow> [] | Inr documents \<Rightarrow> map (\<lambda>d. Str (fst d)) documents)"
| "results w (OracleSummary conn params proxy) =
     handle_result (new_OracleSummary w conn params proxy)"
| "results w (OracleTextSplitter conn params) =
     handle_result (new_OracleTextSplitter w conn params)"
| "results w (Split_Text splitter text) =
     (case split_text w splitter text of Inl e \<Rightarrow> [] | Inr chunks \<Rightarrow> map Val chunks)"
| "results w (OracleEmbeddings conn params proxy) =
     handle_result (new_OracleEmbeddings w conn params proxy)"
| "results w (From_Documents documents embedder client table_name strategy) =
     handle_result (from_documents w documents embedder client table_name strategy)"
| "results w (SpacyEmbeddings model_name) = handle_result (new_SpacyEmbeddings w model_name)"
| "results w c = []"

definition returned :: "'e world \<Rightarrow> call list \<Rightarrow> datum list" where
  "returned w cs = concat (map (results w) cs)"

text \<open>The literals of the two notebooks that are arguments of a call.\<close>

definition literals :: "datum list" where
  "literals =
     [Str ''SYSTEM'', Str [], Str ''testuser'',
      Statement Plsql_Create_Demo_User,
      Statement (Sql ''drop table if exists demo_tab''),
      Statement (Sql ''create table demo_tab (id number, data clob)''),
      Statement (Sql ''insert into demo_tab values (:1, :2)''), Rows rows_to_insert,
      Str ''DEMO_PY_DIR'', Str ''tinybert.onnx'', Str ''demo_model'',
      Statement Plsql_Create_Credentials,
      Dict loader_params, Dict summary_params, Dict splitter_params, Dict embedder_params,
      Dict e2e_loader_params, Dict e2e_summary_params, Dict e2e_splitter_params,
      Dict e2e_embedder_params,
      Proxy (Some []), Proxy None,
      Str ''oravs'', Strategy DOT_PRODUCT,
      Dict [(''idx_name'', PStr ''hnsw_oravs''), (''idx_type'', PStr ''HNSW'')],
      Str query, Count 1, Fetch None, Fetch (Some (20, 1 / 2)),
      Filter None, Filter (Some document_filter),
      Str ''en_core_web_sm'', Texts texts, Val (PStr ''Quick foxes and lazy dogs.'')]"

text \<open>
  Pass-through: every argument of every call is a literal of the source or a value that
  an earlier call returned (\<open>known\<close> holds the values returned so far).
\<close>

fun passes_on :: "'e world \<Rightarrow> datum list \<Rightarrow> call list \<Rightarrow> bool" where
  "passes_on w known [] = True"
| "passes_on w known (c # cs) =
     (list_all (\<lambda>a. a \<in> set literals \<or> a \<in> set known) (arguments c) \<and>
      passes_on w (known @ results w c) cs)"


text \<open>
  No exception of the notebook's own: a run that ends with an exception ends with one that
  a call of the run raised, or with one of the exceptions \<open>L\<close>.
\<close>

definition raises_from :: "'e world \<Rightarrow> exn set \<Rightarrow> 'a run \<Rightarrow> bool" where
  "raises_from w L r =
     (\<forall>e. outcome r = Inl e \<longrightarrow> e \<in> set (failures w (calls r)) \<or> e \<in> L)"

text \<open>What the notebook does in the example world.\<close>

definition example_heap_after :: heap where
  "example_heap_after =
     \<lparr>objects = (\<lambda>_. [])
        (0 := [(''_oid'', PStr ''A1'')],
         1 := [(''_oid'', PStr ''B2''), (''id'', PInt 7)],
         2 := [(''_oid'', PStr ''A1''), (''id'', PStr ''A1$1$1''),
               (''document_id'', PStr ''1''), (''document_summary'', PStr ''S:ab cd'')],
         3 := [(''_oid'', PStr ''A1''), (''id'', PStr ''A1$1$2''),
               (''document_id'', PStr ''1''), (''document_summary'', PStr ''S:ab cd'')],
         4 := [(''_oid'', PStr ''B2''), (''id'', PStr ''B2$2$1''),
               (''document_id'', PStr ''2''), (''document_summary'', PStr ''S:ef'')]),
      fresh = 5\<rparr>"

definition example_chunks_with_mdata :: "document list" where
  "example_chunks_with_mdata =
     [\<lparr>page_content = ''ab'', metadata = 2\<rparr>, \<lparr>page_content = ''cd'', metadata = 3\<rparr>,
      \<lparr>page_content = ''ef'', metadata = 4\<rparr>]"

definition example_stored :: "(string \<times> dict) list" where
  "example_stored =
     [(''ab'', [(''_oid'', PStr ''A1''), (''id'', PStr ''A1$1$1''),
               (''document_id'', PStr ''1''), (''document_summary'', PStr ''S:ab cd'')]),
      (''cd'', [(''_oid'', PStr ''A1''), (''id'', PStr ''A1$1$2''),
               (''document_id'', PStr ''1''), (''document_summary'', PStr ''S:ab cd'')]),
      (''ef'', [(''_oid'', PStr ''B2''), (''id'', PStr ''B2$2$1''),
               (''document_id'', PStr ''2''), (''document_summary'', PStr ''S:ef'')])]"

definition example_calls :: "call list" where
  "example_calls =
     [Connect ''SYSTEM'' [] [], Enter 1, Cursor 1, Enter 2, Execute 2 Plsql_Create_Demo_User,
      Exit 2 None, Exit 1 None,
      Connect ''testuser'' [] [],
      Cursor 1, Enter 2, Execute 2 (Sql ''drop table if exists demo_tab''),
      Execute 2 (Sql ''create table demo_tab (id number, data clob)''),
      Executemany 2 (Sql ''insert into demo_tab values (:1, :2)'') rows_to_insert,
      Exit 2 None, Commit 1,
      Load_Onnx_Model 1 ''DEMO_PY_DIR'' ''tinybert.onnx'' ''demo_model'',
      Cursor 1, Enter 2, Execute 2 Plsql_Create_Credentials, Exit 2 None,
      OracleDocLoader 1 loader_params, Load 3,
      OracleSummary 1 summary_params (Some []), Get_Summary 4 ''ab cd'', Get_Summary 4 ''ef'',
      OracleTextSplitter 1 splitter_params, Split_Text 5 ''ab cd'', Split_Text 5 ''ef'',
      OracleEmbeddings 1 embedder_params (Some []),
      Split_Text 5 ''ab cd'', Embed_Query 6 (PStr ''ab''), Embed_Query 6 (PStr ''cd''),
      Split_Text 5 ''ef'', Embed_Query 6 (PStr ''ef''),
      Connect [] [] [], Enter 1,
      Load_Onnx_Model 1 ''DEMO_PY_DIR'' ''tinybert.onnx'' ''demo_model'',
      OracleDocLoader 1 e2e_loader_params, OracleSummary 1 e2e_summary_params None,
      OracleTextSplitter 1 e2e_splitter_params, OracleEmbeddings 1 e2e_embedder_params None,
      Get_Summary 4 ''ab cd'', Split_Text 5 ''ab cd'', Get_Summary 4 ''ef'', Split_Text 5 ''ef'',
      Exit 1 None,
      From_Documents example_stored 6 1 ''oravs'' DOT_PRODUCT,
      Create_Index 1 7 [(''idx_name'', PStr ''hnsw_oravs''), (''idx_type'', PStr ''HNSW'')],
      Search 7 Similarity_Search query 1 None None,
      Search 7 Similarity_Search query 1 None (Some document_filter),
      Search 7 Similarity_Search_With_Score query 1 None None,
      Search 7 Similarity_Search_With_Score query 1 None (Some document_filter),
      Search 7 Max_Marginal_Relevance_Search query 1 (Some (20, 1 / 2)) None,
      Search 7 Max_Marginal_Relevance_Search query 1 (Some (20, 1 / 2)) (Some document_filter)]"

definition example_variables :: "nat variables" where
  "example_variables =
     \<lparr>docs_of = example_docs,
      list_summary_of = [[PStr ''S:ab cd''], [PStr ''S:ef'']],
      list_chunks_of = [PStr ''ab'', PStr ''cd'', PStr ''ef''],
      embeddings_of = [2, 2, 2],
      chunks_with_mdata_of = example_chunks_with_mdata,
      heap_of = example_heap_after,
      vectorstore_of = 7\<rparr>"

text \<open>The example world, with a model file that cannot be loaded.\<close>

definition missing_model_world :: "nat world" where
  "missing_model_world =
     example_world\<lparr>load_onnx_model :=
       (\<lambda>connection dir file name. Inl (LibraryError ''ORA-20000: model file not found''))\<rparr>"

text \<open>The example world, with a user who may not run the statements.\<close>

definition insufficient_privileges_world :: "nat world" where
  "insufficient_privileges_world =
     example_world\<lparr>execute :=
       (\<lambda>cur stmt. Inl (LibraryError ''ORA-01031: insufficient privileges''))\<rparr>"

text \<open>
  The same, where closing the cursor (the object 2) while an exception is leaving its
  \<^verbatim>\<open>with\<close> block raises an exception of its own.
\<close>

definition closing_fails_world :: "nat world" where
  "closing_fails_world =
     insufficient_privileges_world\<lparr>ctx_exit :=
       (\<lambda>m e. if m = 2 \<and> e \<noteq> None then Inl (LibraryError ''DPY-1001: not connected'')
               else Inr ())\<rparr>"

text \<open>
  The example world, where the vector store cannot be created: the connection that the
  end-to-end cell hands to \<^verbatim>\<open>OracleVS.from_documents\<close> was closed when its \<^verbatim>\<open>with\<close> block
  was left.
\<close>

definition closed_connection_world :: "nat world" where
  "closed_connection_world =
     example_world\<lparr>from_documents :=
       (\<lambda>documents embedder client table_name strategy.
          Inl (LibraryError ''DPY-1001: not connected to database''))\<rparr>"


text \<open>The example world, without the spaCy model.\<close>

definition missing_spacy_model_world :: "nat world" where
  "missing_spacy_model_world =
     example_world\<lparr>new_SpacyEmbeddings :=
       (\<lambda>model_name. Inl (LibraryError ''E050: cannot find model en_core_web_sm''))\<rparr>"

section \<open>The chunk metadata, as specified\<close>

text \<open>
  The metadata that the specification gives to the chunk number \<open>ic\<close> of the document
  number \<open>idx\<close>: the source metadata \<open>src\<close> with three keys set, where \<open>oid\<close> is the
  string under \<^verbatim>\<open>_oid\<close> and \<open>summ0\<close> is \<^verbatim>\<open>summ[0]\<close>.
\<close>

definition chunk_metadata_spec ::
  "dict \<Rightarrow> string \<Rightarrow> nat \<Rightarrow> nat \<Rightarrow> pyval \<Rightarrow> string \<rightharpoonup> pyval" where
  "chunk_metadata_spec src oid idx ic summ0 =
     (map_of src)(''id'' \<mapsto> PStr (oid @ ''$'' @ str_nat idx @ ''$'' @ str_nat ic),
                  ''document_id'' \<mapsto> PStr (str_nat idx),
                  ''document_summary'' \<mapsto> PStr (py_str summ0))"

section \<open>Basic facts about runs\<close>

lemma outcome_ret [simp]: "outcome (ret x) = Inr x"
  by (simp add: outcome_def ret_def)

lemma calls_ret [simp]: "calls (ret x) = []"
  by (simp add: calls_def ret_def)

lemma outcome_raise [simp]: "outcome (raise e) = Inl e"
  by (simp add: outcome_def raise_def)

lemma calls_raise [simp]: "calls (raise e) = []"
  by (simp add: calls_def raise_def)

lemma outcome_invoke [simp]: "outcome (invoke c a) = a"
  by (simp add: outcome_def invoke_def)

lemma calls_invoke [simp]: "calls (invoke c a) = [c]"
  by (simp add: calls_def invoke_def)

lemma outcome_pair [simp]: "outcome (t, r) = r"
  by (simp add: outcome_def)

lemma calls_pair [simp]: "calls (t, r) = t"
  by (simp add: calls_def)

lemma outcome_andthen:
  "outcome (andthen m f) = (case outcome m of Inl e \<Rightarrow> Inl e | Inr x \<Rightarrow> outcome (f x))"
  by (simp add: outcome_def andthen_def split: sum.splits)

lemma calls_andthen:
  "calls (andthen m f) = (case outcome m of Inl e \<Rightarrow> calls m | Inr x \<Rightarrow> calls m @ calls (f x))"
  by (simp add: outcome_def calls_def andthen_def split: sum.splits)

lemma outcome_andthen_Inr:
  "outcome (andthen m f) = Inr y \<longleftrightarrow> (\<exists>x. outcome m = Inr x \<and> outcome (f x) = Inr y)"
  by (simp add: outcome_andthen split: sum.splits)

section \<open>Loops that collect results\<close>

lemma for_each_collect:
  assumes "\<And>x acc ys. outcome (body x acc) = Inr ys \<longleftrightarrow> (\<exists>zs. P x zs \<and> ys = acc @ zs)"
  shows "outcome (for_each xs body acc) = Inr ys \<longleftrightarrow>
           (\<exists>zss. list_all2 P xs zss \<and> ys = acc @ concat zss)"
proof (induction xs arbitrary: acc ys)
  case Nil
  show ?case by auto
next
  case (Cons x xs)
  show ?case
  proof
    assume "outcome (for_each (x # xs) body acc) = Inr ys"
    then obtain mid where m: "outcome (body x acc) = Inr mid"
      and r: "outcome (for_each xs body mid) = Inr ys"
      by (auto simp: outcome_andthen_Inr)
    from m obtain zs where zs: "P x zs" "mid = acc @ zs" using assms by blast
    from r obtain zss where zss: "list_all2 P xs zss" "ys = mid @ concat zss"
      using Cons.IH by blast
    have "list_all2 P (x # xs) (zs # zss)" using zs zss by simp
    moreover have "ys = acc @ concat (zs # zss)" using zs zss by simp
    ultimately show "\<exists>zss. list_all2 P (x # xs) zss \<and> ys = acc @ concat zss" by blast
  next
    assume "\<exists>zss. list_all2 P (x # xs) zss \<and> ys = acc @ concat zss"
    then obtain zss where a: "list_all2 P (x # xs) zss" and b: "ys = acc @ concat zss" by blast
    from a obtain zs rest where c: "zss = zs # rest" "P x zs" "list_all2 P xs rest"
      by (auto simp: list_all2_Cons1)
    have "outcome (body x acc) = Inr (acc @ zs)" using assms c by blast
    moreover have "outcome (for_each xs body (acc @ zs)) = Inr ys"
      using Cons.IH[of "acc @ zs" ys] b c by auto
    ultimately show "outcome (for_each (x # xs) body acc) = Inr ys"
      by (auto simp: outcome_andthen_Inr)
  qed
qed

lemma outcome_call_split_text [simp]:
  "outcome (call_split_text w sp t) = split_text w sp t"
  by (simp add: call_split_text_def)

text \<open>
  Claim C10. In the Split Documents cell, \<^verbatim>\<open>list_chunks\<close> is the concatenation, in load
  order, of the lists that \<^verbatim>\<open>splitter.split_text(doc.page_content)\<close> returns for the
  documents: the cell completes with \<open>list_chunks\<close> exactly when the splitter was created
  and every \<^verbatim>\<open>split_text\<close> call returned, and then nothing is dropped, duplicated or
  reordered.
\<close>

theorem list_chunks_concat:
  "outcome (split_documents w connection docs) = Inr (splitter, list_chunks) \<longleftrightarrow>
     new_OracleTextSplitter w connection splitter_params = Inr splitter \<and>
     (\<exists>css. list_all2 (\<lambda>doc chunks. split_text w splitter (page_content doc) = Inr chunks) docs css
            \<and> list_chunks = concat css)"
proof -
  have body: "\<And>sp doc acc ys.
     outcome (andthen (call_split_text w sp (page_content doc)) (\<lambda>chunks. ret (acc @ chunks))) = Inr ys
     \<longleftrightarrow> (\<exists>zs. split_text w sp (page_content doc) = Inr zs \<and> ys = acc @ zs)"
    by (auto simp: outcome_andthen_Inr)
  show ?thesis
    unfolding split_documents_def
    by (auto simp: outcome_andthen_Inr call_OracleTextSplitter_def for_each_collect[OF body])
qed

lemma singletons_concat:
  "list_all2 (\<lambda>c zs. \<exists>e. f c = Inr e \<and> zs = [e]) cs zss \<Longrightarrow>
   list_all2 (\<lambda>c e. f c = Inr e) cs (concat zss)"
  by (induction rule: list_all2_induct) auto

lemma nested_concat:
  "list_all2 (\<lambda>d zs. \<exists>cs. g d = Inr cs \<and> list_all2 R cs zs) ds zss \<Longrightarrow>
   \<exists>css. list_all2 (\<lambda>d cs. g d = Inr cs) ds css \<and> list_all2 R (concat css) (concat zss)"
proof (induction rule: list_all2_induct)
  case Nil
  show ?case by simp
next
  case (Cons d ds zs zss)
  then obtain cs css where "g d = Inr cs" "list_all2 R cs zs"
    "list_all2 (\<lambda>d cs. g d = Inr cs) ds css" "list_all2 R (concat css) (concat zss)"
    by blast
  then have "list_all2 (\<lambda>d cs. g d = Inr cs) (d # ds) (cs # css) \<and>
             list_all2 R (concat (cs # css)) (concat (zs # zss))"
    by (simp add: list_all2_appendI)
  then show ?case by blast
qed

lemma outcome_call_embed_query [simp]:
  "outcome (call_embed_query w em c) = embed_query w em c"
  by (simp add: call_embed_query_def)

lemma embed_loop:
  "outcome (for_each chunks (\<lambda>chunk embeddings.
      andthen (call_embed_query w em chunk) (\<lambda>embed. ret (embeddings @ [embed]))) acc) = Inr ys
   \<longleftrightarrow> (\<exists>es. list_all2 (\<lambda>c e. embed_query w em c = Inr e) chunks es \<and> ys = acc @ es)"
proof -
  have body: "\<And>chunk acc ys.
      outcome (andthen (call_embed_query w em chunk) (\<lambda>embed. ret (acc @ [embed]))) = Inr ys
      \<longleftrightarrow> (\<exists>zs. (\<exists>e. embed_query w em chunk = Inr e \<and> zs = [e]) \<and> ys = acc @ zs)"
    by (auto simp: outcome_andthen_Inr)
  show ?thesis
  proof
    assume "outcome (for_each chunks (\<lambda>chunk embeddings.
      andthen (call_embed_query w em chunk) (\<lambda>embed. ret (embeddings @ [embed]))) acc) = Inr ys"
    then obtain zss where
      "list_all2 (\<lambda>c zs. \<exists>e. embed_query w em c = Inr e \<and> zs = [e]) chunks zss" "ys = acc @ concat zss"
      unfolding for_each_collect[OF body] by blast
    then show "\<exists>es. list_all2 (\<lambda>c e. embed_query w em c = Inr e) chunks es \<and> ys = acc @ es"
      using singletons_concat by blast
  next
    assume "\<exists>es. list_all2 (\<lambda>c e. embed_query w em c = Inr e) chunks es \<and> ys = acc @ es"
    then obtain es where es: "list_all2 (\<lambda>c e. embed_query w em c = Inr e) chunks es" "ys = acc @ es"
      by blast
    have a: "list_all2 (\<lambda>c zs. \<exists>e. embed_query w em c = Inr e \<and> zs = [e]) chunks (map (\<lambda>e. [e]) es)"
      using es(1) by (simp add: list_all2_map2)
    have b: "concat (map (\<lambda>e. [e]) es) = es" by (induction es) auto
    have "\<exists>zss. list_all2 (\<lambda>c zs. \<exists>e. embed_query w em c = Inr e \<and> zs = [e]) chunks zss \<and>
                ys = acc @ concat zss"
      using a b es(2) by (intro exI[of _ "map (\<lambda>e. [e]) es"]) simp
    then show "outcome (for_each chunks (\<lambda>chunk embeddings.
      andthen (call_embed_query w em chunk) (\<lambda>embed. ret (embeddings @ [embed]))) acc) = Inr ys"
      unfolding for_each_collect[OF body] .
  qed
qed

lemma generate_embeddings_Inr:
  assumes "outcome (generate_embeddings w connection proxy splitter docs) = Inr (embedder, embeddings)"
  shows "\<exists>css. list_all2 (\<lambda>doc chunks. split_text w splitter (page_content doc) = Inr chunks) docs css \<and>
               list_all2 (\<lambda>chunk embed. embed_query w embedder chunk = Inr embed) (concat css) embeddings"
proof -
  let ?R = "\<lambda>chunk embed. embed_query w embedder chunk = Inr embed"
  have body: "\<And>doc acc ys.
      outcome (andthen (call_split_text w splitter (page_content doc)) (\<lambda>chunks.
                for_each chunks (\<lambda>chunk embeddings.
                  andthen (call_embed_query w embedder chunk) (\<lambda>embed.
                  ret (embeddings @ [embed]))) acc)) = Inr ys
      \<longleftrightarrow> (\<exists>zs. (\<exists>cs. split_text w splitter (page_content doc) = Inr cs \<and> list_all2 ?R cs zs) \<and> ys = acc @ zs)"
    by (auto simp: outcome_andthen_Inr embed_loop)
  from assms obtain zss where
    zss: "list_all2 (\<lambda>doc zs. \<exists>cs. split_text w splitter (page_content doc) = Inr cs \<and> list_all2 ?R cs zs) docs zss"
    and e: "embeddings = concat zss"
    unfolding generate_embeddings_def
    by (auto simp: outcome_andthen_Inr for_each_collect[OF body])
  from nested_concat[OF zss] e show ?thesis by blast
qed

text \<open>
  Claim C9. In the Generate Embeddings cell, with \<^verbatim>\<open>split_text\<close> and \<^verbatim>\<open>embed_query\<close>
  functions of their text argument (as they are in a \<open>world\<close>), a completed run has
  collected exactly one embedding per chunk, in order: the number of embeddings is the sum,
  over the loaded documents, of the number of chunks that \<^verbatim>\<open>split_text\<close> returns for the
  document's page content.
\<close>

theorem embeddings_one_per_chunk:
  assumes "outcome (generate_embeddings w connection proxy splitter docs) = Inr (embedder, embeddings)"
  shows "\<exists>css. list_all2 (\<lambda>doc chunks. split_text w splitter (page_content doc) = Inr chunks) docs css \<and>
               list_all2 (\<lambda>chunk embed. embed_query w embedder chunk = Inr embed) (concat css) embeddings \<and>
               length embeddings = sum_list (map length css)"
proof -
  from generate_embeddings_Inr [OF assms] obtain css where
    css: "list_all2 (\<lambda>doc chunks. split_text w splitter (page_content doc) = Inr chunks) docs css"
         "list_all2 (\<lambda>chunk embed. embed_query w embedder chunk = Inr embed) (concat css) embeddings"
    by blast
  have "length embeddings = sum_list (map length css)"
    using list_all2_lengthD [OF css(2)] by (simp add: length_concat)
  with css show ?thesis by blast
qed

theorem list_chunks_concat_witness:
  "outcome (split_documents example_world 1 example_docs) =
     Inr (5, [PStr ''ab'', PStr ''cd'', PStr ''ef'']) \<and>
   (\<exists>css. list_all2 (\<lambda>doc chunks. split_text example_world 5 (page_content doc) = Inr chunks)
            example_docs css \<and>
          [PStr ''ab'', PStr ''cd'', PStr ''ef''] = concat css)"
proof -
  have ev: "outcome (split_documents example_world 1 example_docs) =
              Inr (5, [PStr ''ab'', PStr ''cd'', PStr ''ef''])"
    by (simp add: split_documents_def example_world_def example_docs_def outcome_def
        andthen_def call_OracleTextSplitter_def call_split_text_def invoke_def ret_def)
  from ev list_chunks_concat [of example_world 1 example_docs 5 "[PStr ''ab'', PStr ''cd'', PStr ''ef'']"]
  show ?thesis by blast
qed

theorem embeddings_one_per_chunk_witness:
  "outcome (generate_embeddings example_world 1 [] 5 example_docs) = Inr (6, [2, 2, 2]) \<and>
   (\<exists>css. list_all2 (\<lambda>doc chunks. split_text example_world 5 (page_content doc) = Inr chunks)
            example_docs css \<and>
          list_all2 (\<lambda>chunk embed. embed_query example_world 6 chunk = Inr embed)
            (concat css) [2, 2, 2] \<and>
          length [2::nat, 2, 2] = sum_list (map length css))"
proof -
  have ev: "outcome (generate_embeddings example_world 1 [] 5 example_docs) = Inr (6, [2, 2, 2])"
    by (simp add: generate_embeddings_def example_world_def example_docs_def outcome_def
        andthen_def call_OracleEmbeddings_def call_split_text_def call_embed_query_def
        invoke_def ret_def)
  from ev embeddings_one_per_chunk [OF ev] show ?thesis by blast
qed


section \<open>The loop of the end-to-end cell\<close>

lemma outcome_py_add_str_Inr:
  "outcome (py_add_str v s) = Inr t \<longleftrightarrow> (\<exists>u. v = PStr u \<and> t = u @ s)"
  by (cases v) auto

lemma outcome_dict_getitem_Inr:
  "outcome (dict_getitem h r k) = Inr v \<longleftrightarrow> map_of (objects h r) k = Some v"
  by (simp add: dict_getitem_def split: option.splits)

lemma outcome_list_getitem_Inr:
  "outcome (list_getitem xs i) = Inr x \<longleftrightarrow> i < length xs \<and> x = xs ! i"
  by (auto simp: list_getitem_def)

lemma append_chunk_Inr:
  assumes "outcome (append_chunk idx doc summ ic chunk (h, acc)) = Inr (h', acc')"
  shows "\<exists>oid. map_of (objects h (metadata doc)) ''_oid'' = Some (PStr oid) \<and> summ \<noteq> [] \<and>
           fresh h' = Suc (fresh h) \<and>
           (\<forall>r. r \<noteq> fresh h \<longrightarrow> objects h' r = objects h r) \<and>
           map_of (objects h' (fresh h)) =
             chunk_metadata_spec (objects h (metadata doc)) oid idx ic (summ ! 0) \<and>
           acc' = acc @ [\<lparr>page_content = py_str chunk, metadata = fresh h\<rparr>]"
  using assms
  by (auto simp: append_chunk_def dict_copy_def new_dict_def dict_setitem_def
      outcome_andthen_Inr outcome_py_add_str_Inr outcome_dict_getitem_Inr
      outcome_list_getitem_Inr chunk_metadata_spec_def update_conv')

lemma length_enumerate_from [simp]: "length (enumerate_from n xs) = length xs"
  by (induction xs arbitrary: n) auto

lemma enumerate_from_append:
  "enumerate_from n (xs @ ys) = enumerate_from n xs @ enumerate_from (n + length xs) ys"
  by (induction xs arbitrary: n) auto

lemma nth_enumerate_from: "i < length xs \<Longrightarrow> enumerate_from n xs ! i = (n + i, xs ! i)"
  by (induction xs arbitrary: n i) (auto simp: nth_Cons split: nat.splits)

lemma chunk_loop:
  assumes "outcome (for_each (enumerate_from n chunks)
             (\<lambda>(ic, chunk). append_chunk idx doc summ ic chunk) (h, acc)) = Inr (h', acc')"
    and "metadata doc < fresh h"
  shows "fresh h' = fresh h + length chunks \<and>
         (\<forall>r<fresh h. objects h' r = objects h r) \<and>
         acc' = acc @ map (\<lambda>(r, c). \<lparr>page_content = py_str c, metadata = r\<rparr>)
                        (enumerate_from (fresh h) chunks) \<and>
         (\<forall>j<length chunks. \<exists>oid.
            map_of (objects h (metadata doc)) ''_oid'' = Some (PStr oid) \<and> summ \<noteq> [] \<and>
            map_of (objects h' (fresh h + j)) =
              chunk_metadata_spec (objects h (metadata doc)) oid idx (n + j) (summ ! 0))"
  using assms
proof (induction chunks arbitrary: n h acc)
  case Nil
  then show ?case by simp
next
  case (Cons c cs)
  from Cons.prems(1) obtain h1 acc1 where
    step: "outcome (append_chunk idx doc summ n c (h, acc)) = Inr (h1, acc1)" and
    rest: "outcome (for_each (enumerate_from (Suc n) cs)
             (\<lambda>(ic, chunk). append_chunk idx doc summ ic chunk) (h1, acc1)) = Inr (h', acc')"
    by (auto simp: outcome_andthen_Inr)
  from append_chunk_Inr[OF step] obtain oid where
    oid: "map_of (objects h (metadata doc)) ''_oid'' = Some (PStr oid)" and
    ne: "summ \<noteq> []" and
    f1: "fresh h1 = Suc (fresh h)" and
    fr1: "\<forall>r. r \<noteq> fresh h \<longrightarrow> objects h1 r = objects h r" and
    new1: "map_of (objects h1 (fresh h)) =
             chunk_metadata_spec (objects h (metadata doc)) oid idx n (summ ! 0)" and
    acc1: "acc1 = acc @ [\<lparr>page_content = py_str c, metadata = fresh h\<rparr>]"
    by blast
  have wf1: "metadata doc < fresh h1" using Cons.prems(2) f1 by simp
  have src: "objects h1 (metadata doc) = objects h (metadata doc)"
    using fr1 Cons.prems(2) by simp
  note IH = Cons.IH[OF rest wf1]
  have a: "fresh h' = fresh h + length (c # cs)" using IH f1 by simp
  have b: "\<forall>r<fresh h. objects h' r = objects h r"
    using IH fr1 f1 by auto
  have c: "acc' = acc @ map (\<lambda>(r, c). \<lparr>page_content = py_str c, metadata = r\<rparr>)
                        (enumerate_from (fresh h) (c # cs))"
    using IH acc1 f1 by simp
  have d: "\<exists>oid. map_of (objects h (metadata doc)) ''_oid'' = Some (PStr oid) \<and> summ \<noteq> [] \<and>
            map_of (objects h' (fresh h + j)) =
              chunk_metadata_spec (objects h (metadata doc)) oid idx (n + j) (summ ! 0)"
    if j: "j < length (c # cs)" for j
  proof (cases j)
    case 0
    have "objects h' (fresh h) = objects h1 (fresh h)" using IH f1 by simp
    with new1 oid ne 0 show ?thesis by auto
  next
    case (Suc j')
    then have "j' < length cs" using j by simp
    with IH obtain oid' where
      o': "map_of (objects h1 (metadata doc)) ''_oid'' = Some (PStr oid')" and
      m': "map_of (objects h' (fresh h1 + j')) =
             chunk_metadata_spec (objects h1 (metadata doc)) oid' idx (Suc n + j') (summ ! 0)"
      by blast
    from o' m' src f1 Suc ne show ?thesis by auto
  qed
  from a b c d show ?case by blast
qed

lemma doc_loop:
  assumes "outcome (for_each (enumerate_from n docs) (\<lambda>(idx, doc) s.
             andthen (call_get_summary w summary (page_content doc)) (\<lambda>summ.
             andthen (call_split_text w splitter (page_content doc)) (\<lambda>chunks.
             for_each (enumerate_from 1 chunks)
               (\<lambda>(ic, chunk). append_chunk idx doc summ ic chunk) s))) (h, acc)) = Inr (h', acc')"
    and "\<forall>doc\<in>set docs. metadata doc < fresh h"
  shows "\<exists>summaries css.
           list_all2 (\<lambda>doc summ. get_summary w summary (page_content doc) = Inr summ) docs summaries \<and>
           list_all2 (\<lambda>doc chunks. split_text w splitter (page_content doc) = Inr chunks) docs css \<and>
           fresh h' = fresh h + length (concat css) \<and>
           (\<forall>r<fresh h. objects h' r = objects h r) \<and>
           acc' = acc @ map (\<lambda>(r, c). \<lparr>page_content = py_str c, metadata = r\<rparr>)
                          (enumerate_from (fresh h) (concat css)) \<and>
           (\<forall>i<length docs. \<forall>j<length (css ! i). \<exists>oid.
              map_of (objects h (metadata (docs ! i))) ''_oid'' = Some (PStr oid) \<and>
              summaries ! i \<noteq> [] \<and>
              map_of (objects h' (fresh h + length (concat (take i css)) + j)) =
                chunk_metadata_spec (objects h (metadata (docs ! i))) oid (n + i) (Suc j)
                  (summaries ! i ! 0))"
  using assms
proof (induction docs arbitrary: n h acc)
  case Nil
  then show ?case by simp
next
  case (Cons d ds)
  from Cons.prems(1) obtain summ chunks h1 acc1 where
    gs: "get_summary w summary (page_content d) = Inr summ" and
    st: "split_text w splitter (page_content d) = Inr chunks" and
    inner: "outcome (for_each (enumerate_from 1 chunks)
              (\<lambda>(ic, chunk). append_chunk n d summ ic chunk) (h, acc)) = Inr (h1, acc1)" and
    rest: "outcome (for_each (enumerate_from (Suc n) ds) (\<lambda>(idx, doc) s.
             andthen (call_get_summary w summary (page_content doc)) (\<lambda>summ.
             andthen (call_split_text w splitter (page_content doc)) (\<lambda>chunks.
             for_each (enumerate_from 1 chunks)
               (\<lambda>(ic, chunk). append_chunk idx doc summ ic chunk) s))) (h1, acc1)) = Inr (h', acc')"
    by (auto simp: outcome_andthen_Inr call_get_summary_def call_split_text_def)
  have wfd: "metadata d < fresh h" using Cons.prems(2) by simp
  from chunk_loop[OF inner wfd] have
    f1: "fresh h1 = fresh h + length chunks" and
    fr1: "\<forall>r<fresh h. objects h1 r = objects h r" and
    acc1: "acc1 = acc @ map (\<lambda>(r, c). \<lparr>page_content = py_str c, metadata = r\<rparr>)
                          (enumerate_from (fresh h) chunks)" and
    new1: "\<forall>j<length chunks. \<exists>oid.
            map_of (objects h (metadata d)) ''_oid'' = Some (PStr oid) \<and> summ \<noteq> [] \<and>
            map_of (objects h1 (fresh h + j)) =
              chunk_metadata_spec (objects h (metadata d)) oid n (1 + j) (summ ! 0)"
    by blast+
  have wf1: "\<forall>doc\<in>set ds. metadata doc < fresh h1" using Cons.prems(2) f1 by auto
  from Cons.IH[OF rest wf1] obtain summaries css where
    s2: "list_all2 (\<lambda>doc summ. get_summary w summary (page_content doc) = Inr summ) ds summaries" and
    c2: "list_all2 (\<lambda>doc chunks. split_text w splitter (page_content doc) = Inr chunks) ds css" and
    f2: "fresh h' = fresh h1 + length (concat css)" and
    fr2: "\<forall>r<fresh h1. objects h' r = objects h1 r" and
    acc2: "acc' = acc1 @ map (\<lambda>(r, c). \<lparr>page_content = py_str c, metadata = r\<rparr>)
                          (enumerate_from (fresh h1) (concat css))" and
    new2: "\<forall>i<length ds. \<forall>j<length (css ! i). \<exists>oid.
              map_of (objects h1 (metadata (ds ! i))) ''_oid'' = Some (PStr oid) \<and>
              summaries ! i \<noteq> [] \<and>
              map_of (objects h' (fresh h1 + length (concat (take i css)) + j)) =
                chunk_metadata_spec (objects h1 (metadata (ds ! i))) oid (Suc n + i) (Suc j)
                  (summaries ! i ! 0)"
    by blast
  let ?summaries = "summ # summaries" and ?css = "chunks # css"
  have a: "list_all2 (\<lambda>doc summ. get_summary w summary (page_content doc) = Inr summ)
             (d # ds) ?summaries"
    using gs s2 by simp
  have b: "list_all2 (\<lambda>doc chunks. split_text w splitter (page_content doc) = Inr chunks)
             (d # ds) ?css"
    using st c2 by simp
  have c: "fresh h' = fresh h + length (concat ?css)" using f1 f2 by simp
  have e: "\<forall>r<fresh h. objects h' r = objects h r" using fr1 fr2 f1 by auto
  have f: "acc' = acc @ map (\<lambda>(r, c). \<lparr>page_content = py_str c, metadata = r\<rparr>)
                          (enumerate_from (fresh h) (concat ?css))"
    using acc1 acc2 f1 by (simp add: enumerate_from_append)
  have g: "\<exists>oid. map_of (objects h (metadata ((d # ds) ! i))) ''_oid'' = Some (PStr oid) \<and>
              ?summaries ! i \<noteq> [] \<and>
              map_of (objects h' (fresh h + length (concat (take i ?css)) + j)) =
                chunk_metadata_spec (objects h (metadata ((d # ds) ! i))) oid (n + i) (Suc j)
                  (?summaries ! i ! 0)"
    if i: "i < length (d # ds)" and j: "j < length (?css ! i)" for i j
  proof (cases i)
    case 0
    with j have jl: "j < length chunks" by simp
    with new1 obtain oid where
      "map_of (objects h (metadata d)) ''_oid'' = Some (PStr oid)" "summ \<noteq> []"
      "map_of (objects h1 (fresh h + j)) =
         chunk_metadata_spec (objects h (metadata d)) oid n (1 + j) (summ ! 0)"
      by blast
    moreover have "objects h' (fresh h + j) = objects h1 (fresh h + j)"
      using fr2 f1 jl by simp
    ultimately show ?thesis using 0 by auto
  next
    case (Suc i')
    with i j have il: "i' < length ds" and jl: "j < length (css ! i')" by simp_all
    with new2 obtain oid where
      o: "map_of (objects h1 (metadata (ds ! i'))) ''_oid'' = Some (PStr oid)" and
      n: "summaries ! i' \<noteq> []" and
      m: "map_of (objects h' (fresh h1 + length (concat (take i' css)) + j)) =
            chunk_metadata_spec (objects h1 (metadata (ds ! i'))) oid (Suc n + i') (Suc j)
              (summaries ! i' ! 0)"
      by blast
    have "metadata (ds ! i') < fresh h" using Cons.prems(2) il by simp
    then have src: "objects h1 (metadata (ds ! i')) = objects h (metadata (ds ! i'))"
      using fr1 by simp
    have idx: "fresh h1 + length (concat (take i' css)) + j =
               fresh h + length (concat (take i ?css)) + j"
      using f1 Suc by simp
    from o n m src idx Suc show ?thesis by auto
  qed
  from a b c e f g show ?case by blast
qed

lemma concat_nth_offset:
  "i < length xss \<Longrightarrow> j < length (xss ! i) \<Longrightarrow>
   length (concat (take i xss)) + j < length (concat xss) \<and>
   concat xss ! (length (concat (take i xss)) + j) = xss ! i ! j"
proof (induction xss arbitrary: i)
  case Nil
  then show ?case by simp
next
  case (Cons xs xss)
  show ?case
  proof (cases i)
    case 0
    with Cons.prems show ?thesis by (simp add: nth_append)
  next
    case (Suc i')
    with Cons.prems have "i' < length xss" "j < length (xss ! i')" by simp_all
    from Cons.IH[OF this] Suc show ?thesis by (simp add: nth_append)
  qed
qed

lemma outcome_with_as:
  "outcome (with_as w mgr body) =
     (case outcome mgr of
        Inl e \<Rightarrow> Inl e
      | Inr m \<Rightarrow>
          (case ctx_enter w m of
             Inl e \<Rightarrow> Inl e
           | Inr v \<Rightarrow>
               (case outcome (body v) of
                  Inl e \<Rightarrow> (case ctx_exit w m (Some e) of Inl e' \<Rightarrow> Inl e' | Inr u \<Rightarrow> Inl e)
                | Inr x \<Rightarrow> (case ctx_exit w m None of Inl e' \<Rightarrow> Inl e' | Inr u \<Rightarrow> Inr x))))"
  by (simp add: with_as_def outcome_andthen split: sum.splits)

lemma outcome_with_as_Inr:
  "outcome (with_as w mgr body) = Inr x \<longleftrightarrow>
     (\<exists>m v. outcome mgr = Inr m \<and> ctx_enter w m = Inr v \<and> outcome (body v) = Inr x \<and>
            ctx_exit w m None = Inr ())"
  by (auto simp: outcome_with_as split: sum.splits)

lemma process_documents_Inr:
  assumes "outcome (process_documents w h docs) = Inr (connection, embedder, h', cwm)"
  shows "\<exists>summary splitter.
           new_OracleSummary w connection e2e_summary_params None = Inr summary \<and>
           new_OracleTextSplitter w connection e2e_splitter_params = Inr splitter \<and>
           outcome (process_loop w summary splitter docs h) = Inr (h', cwm)"
  using assms
  by (auto simp: process_documents_def outcome_with_as_Inr outcome_andthen_Inr
      call_OracleSummary_def call_OracleTextSplitter_def split: prod.splits)

lemma process_documents_result:
  assumes "outcome (process_documents w h docs) = Inr (connection, embedder, h', chunks_with_mdata)"
    and "\<forall>doc\<in>set docs. metadata doc < fresh h"
  shows "\<exists>summary splitter summaries css.
           new_OracleSummary w connection e2e_summary_params None = Inr summary \<and>
           new_OracleTextSplitter w connection e2e_splitter_params = Inr splitter \<and>
           list_all2 (\<lambda>doc summ. get_summary w summary (page_content doc) = Inr summ)
             docs summaries \<and>
           list_all2 (\<lambda>doc chunks. split_text w splitter (page_content doc) = Inr chunks)
             docs css \<and>
           length chunks_with_mdata = length (concat css) \<and>
           (\<forall>i<length docs. \<forall>j<length (css ! i). \<exists>oid.
              map_of (objects h (metadata (docs ! i))) ''_oid'' = Some (PStr oid) \<and>
              summaries ! i \<noteq> [] \<and>
              page_content (chunks_with_mdata ! (length (concat (take i css)) + j)) =
                py_str (css ! i ! j) \<and>
              map_of (objects h'
                  (metadata (chunks_with_mdata ! (length (concat (take i css)) + j)))) =
                (map_of (objects h (metadata (docs ! i))))
                  (''id'' \<mapsto> PStr (oid @ ''$'' @ str_nat (Suc i) @ ''$'' @ str_nat (Suc j)),
                   ''document_id'' \<mapsto> PStr (str_nat (Suc i)),
                   ''document_summary'' \<mapsto> PStr (py_str (summaries ! i ! 0)))) \<and>
           (\<forall>doc\<in>set docs. objects h' (metadata doc) = objects h (metadata doc))"
proof -
  from process_documents_Inr[OF assms(1)] obtain summary splitter where
    su: "new_OracleSummary w connection e2e_summary_params None = Inr summary" and
    sp: "new_OracleTextSplitter w connection e2e_splitter_params = Inr splitter" and
    loop: "outcome (process_loop w summary splitter docs h) = Inr (h', chunks_with_mdata)"
    by blast
  from doc_loop[OF loop[unfolded process_loop_def] assms(2)] obtain summaries css where
    a: "list_all2 (\<lambda>doc summ. get_summary w summary (page_content doc) = Inr summ) docs summaries" and
    b: "list_all2 (\<lambda>doc chunks. split_text w splitter (page_content doc) = Inr chunks) docs css" and
    fr: "\<forall>r<fresh h. objects h' r = objects h r" and
    out: "chunks_with_mdata = [] @ map (\<lambda>(r, c). \<lparr>page_content = py_str c, metadata = r\<rparr>)
                          (enumerate_from (fresh h) (concat css))" and
    new: "\<forall>i<length docs. \<forall>j<length (css ! i). \<exists>oid.
              map_of (objects h (metadata (docs ! i))) ''_oid'' = Some (PStr oid) \<and>
              summaries ! i \<noteq> [] \<and>
              map_of (objects h' (fresh h + length (concat (take i css)) + j)) =
                chunk_metadata_spec (objects h (metadata (docs ! i))) oid (1 + i) (Suc j)
                  (summaries ! i ! 0)"
    by blast
  have len: "length chunks_with_mdata = length (concat css)" using out by simp
  have lc: "length css = length docs" using b by (simp add: list_all2_lengthD)
  have pt: "\<exists>oid.
              map_of (objects h (metadata (docs ! i))) ''_oid'' = Some (PStr oid) \<and>
              summaries ! i \<noteq> [] \<and>
              page_content (chunks_with_mdata ! (length (concat (take i css)) + j)) =
                py_str (css ! i ! j) \<and>
              map_of (objects h'
                  (metadata (chunks_with_mdata ! (length (concat (take i css)) + j)))) =
                (map_of (objects h (metadata (docs ! i))))
                  (''id'' \<mapsto> PStr (oid @ ''$'' @ str_nat (Suc i) @ ''$'' @ str_nat (Suc j)),
                   ''document_id'' \<mapsto> PStr (str_nat (Suc i)),
                   ''document_summary'' \<mapsto> PStr (py_str (summaries ! i ! 0)))"
    if i: "i < length docs" and j: "j < length (css ! i)" for i j
  proof -
    let ?k = "length (concat (take i css)) + j"
    from concat_nth_offset[of i css j] i j lc have
      k: "?k < length (concat css)" and nth: "concat css ! ?k = css ! i ! j" by simp_all
    have d: "chunks_with_mdata ! ?k = \<lparr>page_content = py_str (css ! i ! j), metadata = fresh h + ?k\<rparr>"
      using out k nth by (simp add: nth_enumerate_from)
    from new i j obtain oid where
      "map_of (objects h (metadata (docs ! i))) ''_oid'' = Some (PStr oid)"
      "summaries ! i \<noteq> []"
      "map_of (objects h' (fresh h + length (concat (take i css)) + j)) =
         chunk_metadata_spec (objects h (metadata (docs ! i))) oid (1 + i) (Suc j)
           (summaries ! i ! 0)"
      by blast
    with d show ?thesis by (auto simp: chunk_metadata_spec_def add.assoc)
  qed
  have src: "\<forall>doc\<in>set docs. objects h' (metadata doc) = objects h (metadata doc)"
    using fr assms(2) by simp
  from su sp a b len pt src show ?thesis by blast
qed

text \<open>
  Claim C8. In the end-to-end cell, for the document number \<open>Suc i\<close> (counting from 1) and
  its chunk number \<open>Suc j\<close>, the Document appended to \<^verbatim>\<open>chunks_with_mdata\<close> has the text
  \<^verbatim>\<open>str(chunk)\<close> and a metadata dictionary that maps \<^verbatim>\<open>id\<close> to
  \<^verbatim>\<open>metadata["_oid"] + "$" + str(id) + "$" + str(ic)\<close>, \<^verbatim>\<open>document_id\<close> to \<^verbatim>\<open>str(id)\<close>,
  \<^verbatim>\<open>document_summary\<close> to \<^verbatim>\<open>str(summ[0])\<close>, and every other key to what the source
  document's metadata maps it to; the metadata of the source documents is unchanged. The
  documents are appended in order, so the one for chunk \<open>j\<close> of document \<open>i\<close> comes after
  those of all chunks of the documents before and of the \<open>j\<close> chunks before.

  The statement is about a run of the cell that completes, on documents whose metadata
  dictionaries are objects of the heap, as the documents that the loader returns are
  (\<open>load_documents_allocated\<close>).
\<close>

theorem chunk_metadata_frame:
  assumes "outcome (process_documents w h docs) = Inr (connection, embedder, h', chunks_with_mdata)"
    and "\<forall>doc\<in>set docs. metadata doc < fresh h"
  shows "\<exists>summary splitter summaries css.
           new_OracleSummary w connection e2e_summary_params None = Inr summary \<and>
           new_OracleTextSplitter w connection e2e_splitter_params = Inr splitter \<and>
           list_all2 (\<lambda>doc summ. get_summary w summary (page_content doc) = Inr summ)
             docs summaries \<and>
           list_all2 (\<lambda>doc chunks. split_text w splitter (page_content doc) = Inr chunks)
             docs css \<and>
           length chunks_with_mdata = length (concat css) \<and>
           (\<forall>i<length docs. \<forall>j<length (css ! i). \<exists>oid.
              map_of (objects h (metadata (docs ! i))) ''_oid'' = Some (PStr oid) \<and>
              summaries ! i \<noteq> [] \<and>
              page_content (chunks_with_mdata ! (length (concat (take i css)) + j)) =
                py_str (css ! i ! j) \<and>
              map_of (objects h'
                  (metadata (chunks_with_mdata ! (length (concat (take i css)) + j)))) =
                (map_of (objects h (metadata (docs ! i))))
                  (''id'' \<mapsto> PStr (oid @ ''$'' @ str_nat (Suc i) @ ''$'' @ str_nat (Suc j)),
                   ''document_id'' \<mapsto> PStr (str_nat (Suc i)),
                   ''document_summary'' \<mapsto> PStr (py_str (summaries ! i ! 0)))) \<and>
           (\<forall>doc\<in>set docs. objects h' (metadata doc) = objects h (metadata doc))"
  using assms by (rule process_documents_result)

lemmas run_defs = outcome_def calls_def andthen_def invoke_def ret_def raise_def

lemmas call_defs = call_connect_def call_cursor_def call_execute_def call_executemany_def
  call_commit_def call_load_onnx_model_def call_OracleDocLoader_def call_load_def
  call_OracleSummary_def call_get_summary_def call_OracleTextSplitter_def call_split_text_def
  call_OracleEmbeddings_def call_embed_query_def call_from_documents_def call_create_index_def
  call_search_def call_SpacyEmbeddings_def call_embed_documents_def

lemmas heap_defs = dict_copy_def new_dict_def dict_getitem_def dict_setitem_def list_getitem_def

lemma example_docs_allocated: "\<forall>doc\<in>set example_docs. metadata doc < fresh example_heap"
  by (simp add: example_docs_def example_heap_def)

lemma example_process_documents:
  "outcome (process_documents example_world example_heap example_docs) =
     Inr (1, 6, example_heap_after, example_chunks_with_mdata)"
  by (simp add: process_documents_def process_loop_def with_as_def append_chunk_def
      example_world_def example_heap_def example_docs_def run_defs call_defs heap_defs
      str_nat.simps digit_char_def example_heap_after_def example_chunks_with_mdata_def)

theorem chunk_metadata_frame_witness:
  "outcome (process_documents example_world example_heap example_docs) =
     Inr (1, 6, example_heap_after, example_chunks_with_mdata) \<and>
   objects example_heap_after 0 = objects example_heap 0 \<and>
   objects example_heap_after 1 = objects example_heap 1 \<and>
   map_of (objects example_heap_after 3) ''id'' = Some (PStr ''A1$1$2'')"
proof -
  from chunk_metadata_frame [OF example_process_documents example_docs_allocated]
  have "\<forall>doc\<in>set example_docs.
          objects example_heap_after (metadata doc) = objects example_heap (metadata doc)"
    by blast
  then have "objects example_heap_after 0 = objects example_heap 0 \<and>
             objects example_heap_after 1 = objects example_heap 1"
    by (simp add: example_docs_def)
  moreover have "map_of (objects example_heap_after 3) ''id'' = Some (PStr ''A1$1$2'')"
    by (simp add: example_heap_after_def)
  ultimately show ?thesis using example_process_documents by blast
qed

section \<open>Properties of every call of a run\<close>

lemma every_call_ret [simp]: "every_call P (ret x)"
  by (simp add: every_call_def)

lemma every_call_raise [simp]: "every_call P (raise e)"
  by (simp add: every_call_def)

lemma every_call_invoke [simp]: "every_call P (invoke c a) \<longleftrightarrow> P c"
  by (simp add: every_call_def)

lemma every_call_andthen:
  assumes "every_call P m" and "\<And>x. every_call P (f x)"
  shows "every_call P (andthen m f)"
  using assms by (auto simp: every_call_def calls_andthen split: sum.splits)

lemma every_call_for_each:
  assumes "\<And>x s. every_call P (body x s)"
  shows "every_call P (for_each xs body s)"
proof (induction xs arbitrary: s)
  case Nil
  show ?case by simp
next
  case (Cons x xs)
  show ?case unfolding for_each.simps
    by (rule every_call_andthen) (use assms Cons.IH in auto)
qed

lemma calls_with_as:
  "calls (with_as w mgr body) =
     (case outcome mgr of
        Inl e \<Rightarrow> calls mgr
      | Inr m \<Rightarrow>
          (case ctx_enter w m of
             Inl e \<Rightarrow> calls mgr @ [Enter m]
           | Inr v \<Rightarrow>
               (case outcome (body v) of
                  Inl e \<Rightarrow> calls mgr @ [Enter m] @ calls (body v) @ [Exit m (Some e)]
                | Inr x \<Rightarrow> calls mgr @ [Enter m] @ calls (body v) @ [Exit m None])))"
  by (simp add: with_as_def calls_andthen outcome_andthen split: sum.splits)

lemma every_call_with_as:
  assumes "every_call P mgr" and "\<And>v. every_call P (body v)"
    and "\<And>m. P (Enter m)" and "\<And>m e. P (Exit m e)"
  shows "every_call P (with_as w mgr body)"
  using assms by (auto simp: every_call_def calls_with_as split: sum.splits)

lemma every_call_case_prod:
  assumes "\<And>a b. every_call P (f a b)"
  shows "every_call P (case p of (a, b) \<Rightarrow> f a b)"
  using assms by (cases p) simp

lemma every_call_case_prod2:
  assumes "\<And>a b. every_call P (f a b s)"
  shows "every_call P ((case p of (a, b) \<Rightarrow> f a b) s)"
  using assms by (cases p) simp

lemma calls_py_add_str [simp]: "calls (py_add_str v s) = []"
  by (cases v) simp_all

lemma calls_dict_getitem [simp]: "calls (dict_getitem h r k) = []"
  by (simp add: dict_getitem_def split: option.splits)

lemma calls_list_getitem [simp]: "calls (list_getitem xs i) = []"
  by (simp add: list_getitem_def)

lemma calls_append_chunk [simp]: "calls (append_chunk idx doc summ ic chunk s) = []"
  by (simp add: append_chunk_def calls_andthen split: prod.splits sum.splits)

lemma every_call_append_chunk [simp]: "every_call P (append_chunk idx doc summ ic chunk s)"
  by (simp add: every_call_def)

lemma calls_chunk_loop [simp]:
  "calls (for_each xs (\<lambda>(ic, chunk). append_chunk idx doc summ ic chunk) s) = []"
  by (induction xs arbitrary: s) (auto simp: calls_andthen split: sum.splits)

lemma every_call_chunk_loop [simp]:
  "every_call P (for_each xs (\<lambda>(ic, chunk). append_chunk idx doc summ ic chunk) s)"
  by (simp add: every_call_def)

lemmas cell_defs = create_demo_user_def connect_to_demo_user_def populate_demo_table_def
  load_the_onnx_model_def create_credential_def load_documents_def generate_summary_def
  split_documents_def generate_embeddings_def process_loop_def process_documents_def
  create_vector_store_def create_the_index_def perform_semantic_search_def

lemmas every_call_intros = every_call_andthen every_call_for_each every_call_with_as
  every_call_case_prod every_call_case_prod2


lemma summary_configs_every_call:
  "every_call (\<lambda>c. list_all Q (summary_config_of c)) r \<Longrightarrow> list_all Q (summary_configs (calls r))"
  by (simp add: every_call_def summary_configs_def list_all_iff)

text \<open>
  Claim C5. Every instantiation of the summarization API (\<^verbatim>\<open>OracleSummary(...)\<close>) made by
  the notebook, in any run, passes a configuration mapping whose keys are exactly
  \<^verbatim>\<open>provider\<close>, \<^verbatim>\<open>glevel\<close>, \<^verbatim>\<open>numParagraphs\<close> and \<^verbatim>\<open>language\<close>, and no other key.
\<close>

theorem summary_configuration_keys:
  "\<forall>params\<in>set (summary_configs (calls (oracleai_demo w))).
     map fst params = [''provider'', ''glevel'', ''numParagraphs'', ''language'']"
proof -
  let ?Q = "\<lambda>params. map fst params = [''provider'', ''glevel'', ''numParagraphs'', ''language'']"
  have "every_call (\<lambda>c. list_all ?Q (summary_config_of c)) (oracleai_demo w)"
    unfolding oracleai_demo_def cell_defs call_defs
    by (intro every_call_intros; simp add: summary_params_def e2e_summary_params_def)
  from summary_configs_every_call[OF this] show ?thesis by (simp add: list_all_iff)
qed

section \<open>Failures\<close>

lemma failures_Nil [simp]: "failures w [] = []"
  by (simp add: failures_def)

lemma failures_Cons:
  "failures w (c # cs) = (case failure w c of None \<Rightarrow> [] | Some e \<Rightarrow> [e]) @ failures w cs"
  by (simp add: failures_def)

lemma failures_append [simp]: "failures w (xs @ ys) = failures w xs @ failures w ys"
  by (simp add: failures_def)

lemma failures_empty_iff: "failures w cs = [] \<longleftrightarrow> (\<forall>c\<in>set cs. failure w c = None)"
  by (induction cs) (auto simp: failures_Cons split: option.splits)

lemma unwinds_append:
  "unwinds w (xs @ ys) =
     (if failures w xs = [] then unwinds w ys else unwinds w xs \<and> list_all is_unwinding ys)"
  by (induction xs) (auto simp: failures_Cons split: option.splits)

lemma unwinds_one_failure:
  assumes "unwinds w cs" and "\<forall>c\<in>set cs. is_unwinding c \<longrightarrow> failure w c = None"
    and "c \<in> set cs" and "failure w c = Some e"
  shows "failures w cs = [e]"
  using assms
proof (induction cs)
  case Nil
  then show ?case by simp
next
  case (Cons c0 cs)
  show ?case
  proof (cases "failure w c0")
    case None
    with Cons.prems have "c \<in> set cs" "unwinds w cs" by auto
    with Cons.IH Cons.prems have "failures w cs = [e]" by simp
    with None show ?thesis by (simp add: failures_Cons)
  next
    case (Some e0)
    with Cons.prems have u: "list_all is_unwinding cs" by simp
    with Cons.prems(2) have none: "\<forall>c\<in>set cs. failure w c = None"
      by (simp add: list_all_iff)
    then have "failures w cs = []" by (simp add: failures_empty_iff)
    moreover have "c = c0" using Cons.prems(3,4) none by auto
    ultimately show ?thesis using Some Cons.prems(4) by (simp add: failures_Cons)
  qed
qed

lemma unhandled_ret [simp]: "unhandled w (ret x)"
  by (simp add: unhandled_def)

lemma unhandled_raise [simp]: "unhandled w (raise e)"
  by (simp add: unhandled_def)

lemma unhandled_invoke: "failure w c = raised a \<Longrightarrow> unhandled w (invoke c a)"
  by (cases a) (auto simp: unhandled_def failures_Cons)

lemma unhandled_Inr: "unhandled w m \<Longrightarrow> outcome m = Inr x \<Longrightarrow> failures w (calls m) = []"
  by (auto simp: unhandled_def)

lemma unhandled_andthen:
  assumes "unhandled w m" and "\<And>x. unhandled w (f x)"
  shows "unhandled w (andthen m f)"
proof (cases "outcome m")
  case (Inl e)
  with assms(1) show ?thesis by (simp add: unhandled_def calls_andthen outcome_andthen)
next
  case (Inr x)
  from unhandled_Inr[OF assms(1) Inr] assms(2)[of x] Inr show ?thesis
    by (simp add: unhandled_def calls_andthen outcome_andthen unwinds_append)
qed

lemma unhandled_for_each:
  assumes "\<And>x s. unhandled w (body x s)"
  shows "unhandled w (for_each xs body s)"
proof (induction xs arbitrary: s)
  case Nil
  show ?case by simp
next
  case (Cons x xs)
  show ?case unfolding for_each.simps
    by (rule unhandled_andthen) (use assms Cons.IH in auto)
qed

lemma unhandled_with_as:
  assumes "unhandled w mgr" and "\<And>v. unhandled w (body v)"
  shows "unhandled w (with_as w mgr body)"
proof (cases "outcome mgr")
  case (Inl e0)
  with assms(1) show ?thesis by (simp add: unhandled_def calls_with_as outcome_with_as)
next
  case m: (Inr m)
  note nomgr = unhandled_Inr[OF assms(1) m]
  show ?thesis
  proof (cases "ctx_enter w m")
    case (Inl e1)
    with m nomgr show ?thesis
      by (simp add: unhandled_def calls_with_as outcome_with_as unwinds_append failures_Cons)
  next
    case v: (Inr v)
    show ?thesis
    proof (cases "outcome (body v)")
      case b: (Inl e2)
      from assms(2)[of v] b have
        u: "unwinds w (calls (body v))" and
        l: "failures w (calls (body v)) \<noteq> [] \<Longrightarrow> last (failures w (calls (body v))) = e2"
        by (auto simp: unhandled_def)
      show ?thesis
      proof (cases "ctx_exit w m (Some e2)")
        case (Inl e3)
        with m v b nomgr u show ?thesis
          by (simp add: unhandled_def calls_with_as outcome_with_as unwinds_append failures_Cons)
      next
        case (Inr u')
        with m v b nomgr u l show ?thesis
          by (auto simp: unhandled_def calls_with_as outcome_with_as unwinds_append
              failures_Cons)
      qed
    next
      case b: (Inr x)
      note nobody = unhandled_Inr[OF assms(2)[of v] b]
      from m v b nomgr nobody show ?thesis
        by (cases "ctx_exit w m None")
           (simp_all add: unhandled_def calls_with_as outcome_with_as unwinds_append
              failures_Cons)
    qed
  qed
qed

lemma unhandled_case_prod:
  assumes "\<And>a b. unhandled w (f a b)"
  shows "unhandled w (case p of (a, b) \<Rightarrow> f a b)"
  using assms by (cases p) simp

lemma unhandled_case_prod2:
  assumes "\<And>a b. unhandled w (f a b s)"
  shows "unhandled w ((case p of (a, b) \<Rightarrow> f a b) s)"
  using assms by (cases p) simp

lemma unhandled_append_chunk [simp]: "unhandled w (append_chunk idx doc summ ic chunk s)"
  by (simp add: unhandled_def)

lemmas unhandled_intros = unhandled_andthen unhandled_for_each unhandled_with_as
  unhandled_case_prod unhandled_case_prod2 unhandled_invoke

lemma unhandled_oracleai_demo: "unhandled w (oracleai_demo w)"
  unfolding oracleai_demo_def cell_defs call_defs
  by (intro unhandled_intros; simp)

lemma unhandled_spacy_embedding: "unhandled w (spacy_embedding w)"
  unfolding spacy_embedding_def call_defs
  by (intro unhandled_intros; simp)

lemma unhandled_propagates:
  assumes "unhandled w r" and "\<forall>c\<in>set (calls r). is_unwinding c \<longrightarrow> failure w c = None"
  shows "propagates w r"
  unfolding propagates_def
proof (intro ballI allI impI)
  fix c e
  assume c: "c \<in> set (calls r)" and f: "failure w c = Some e"
  from assms(1) have u: "unwinds w (calls r)" by (simp add: unhandled_def)
  from unwinds_one_failure[OF u assms(2) c f] have "failures w (calls r) = [e]" .
  with assms(1) show "outcome r = Inl e" by (simp add: unhandled_def)
qed

lemma no_unwinding_spacy_embedding:
  "\<forall>c\<in>set (calls (spacy_embedding w)). \<not> is_unwinding c"
proof -
  have "every_call (\<lambda>c. \<not> is_unwinding c) (spacy_embedding w)"
    unfolding spacy_embedding_def call_defs
    by (intro every_call_intros; simp)
  then show ?thesis by (simp add: every_call_def list_all_iff)
qed

text \<open>
  Claim C4, as amended. No call site of either notebook catches, translates or recovers
  from an exception: after a call that raised, the run makes no further call except the
  \<^verbatim>\<open>__exit__\<close> of the \<^verbatim>\<open>with\<close> blocks that the exception is leaving, and the run ends with
  an exception. That exception is the one of the last call that raised. So the exception
  of the failing library call surfaces unchanged whenever no such \<^verbatim>\<open>__exit__\<close> raises an
  exception of its own; when one does, its exception replaces the first one. The spaCy
  notebook has no \<^verbatim>\<open>with\<close> block: there every failure surfaces unchanged.
\<close>

theorem failures_surface:
  "unwinds w (calls (oracleai_demo w)) \<and>
   (failures w (calls (oracleai_demo w)) \<noteq> [] \<longrightarrow>
      outcome (oracleai_demo w) = Inl (last (failures w (calls (oracleai_demo w))))) \<and>
   ((\<forall>c\<in>set (calls (oracleai_demo w)). is_unwinding c \<longrightarrow> failure w c = None) \<longrightarrow>
      (\<forall>c\<in>set (calls (oracleai_demo w)). \<forall>e. failure w c = Some e \<longrightarrow>
         outcome (oracleai_demo w) = Inl e)) \<and>
   unwinds w (calls (spacy_embedding w)) \<and>
   (\<forall>c\<in>set (calls (spacy_embedding w)). \<forall>e. failure w c = Some e \<longrightarrow>
      outcome (spacy_embedding w) = Inl e)"
proof -
  note a = unhandled_oracleai_demo [of w]
  note b = unhandled_spacy_embedding [of w]
  have c: "(\<forall>c\<in>set (calls (oracleai_demo w)). is_unwinding c \<longrightarrow> failure w c = None) \<longrightarrow>
      (\<forall>c\<in>set (calls (oracleai_demo w)). \<forall>e. failure w c = Some e \<longrightarrow>
         outcome (oracleai_demo w) = Inl e)"
    using unhandled_propagates [OF a] unfolding propagates_def by blast
  have "propagates w (spacy_embedding w)"
    by (rule unhandled_propagates [OF b]) (use no_unwinding_spacy_embedding in blast)
  then have d: "\<forall>c\<in>set (calls (spacy_embedding w)). \<forall>e. failure w c = Some e \<longrightarrow>
      outcome (spacy_embedding w) = Inl e"
    by (simp add: propagates_def)
  from a b c d show ?thesis unfolding unhandled_def by blast
qed

section \<open>The run in the example world\<close>

lemma andthen_Inr_pair: "andthen (t, Inr x) f = (case f x of (t', r) \<Rightarrow> (t @ t', r))"
  by (simp add: andthen_def split: prod.splits)

lemma andthen_Inl_pair: "andthen (t, Inl e) f = (t, Inl e)"
  by (simp add: andthen_def)

lemmas eval_defs = andthen_Inr_pair andthen_Inl_pair invoke_def ret_def raise_def with_as_def
  call_defs heap_defs

lemma example_run: "oracleai_demo example_world = (example_calls, Inr example_variables)"
  by (simp add: oracleai_demo_def cell_defs eval_defs append_chunk_def
      example_world_def example_heap_def example_docs_def empty_heap_def
      str_nat.simps digit_char_def example_heap_after_def example_chunks_with_mdata_def
      eval_nat_numeral
      example_calls_def example_variables_def example_stored_def
      loader_params_def e2e_loader_params_def summary_params_def e2e_summary_params_def
      splitter_params_def e2e_splitter_params_def embedder_params_def e2e_embedder_params_def)


lemma example_summary_configs:
  "summary_configs (calls (oracleai_demo example_world)) = [summary_params, e2e_summary_params]"
  by (simp add: example_run example_calls_def summary_configs_def)

theorem summary_configuration_keys_witness:
  "summary_configs (calls (oracleai_demo example_world)) = [summary_params, e2e_summary_params] \<and>
   map fst summary_params = [''provider'', ''glevel'', ''numParagraphs'', ''language''] \<and>
   map fst e2e_summary_params = [''provider'', ''glevel'', ''numParagraphs'', ''language'']"
  using summary_configuration_keys [of example_world] example_summary_configs by simp

lemma missing_model_run:
  "oracleai_demo missing_model_world =
     ([Connect ''SYSTEM'' [] [], Enter 1, Cursor 1, Enter 2, Execute 2 Plsql_Create_Demo_User,
       Exit 2 None, Exit 1 None,
       Connect ''testuser'' [] [],
       Cursor 1, Enter 2, Execute 2 (Sql ''drop table if exists demo_tab''),
       Execute 2 (Sql ''create table demo_tab (id number, data clob)''),
       Executemany 2 (Sql ''insert into demo_tab values (:1, :2)'') rows_to_insert,
       Exit 2 None, Commit 1,
       Load_Onnx_Model 1 ''DEMO_PY_DIR'' ''tinybert.onnx'' ''demo_model''],
      Inl (LibraryError ''ORA-20000: model file not found''))"
  by (simp add: oracleai_demo_def cell_defs eval_defs missing_model_world_def example_world_def)

lemma missing_spacy_model_run:
  "spacy_embedding missing_spacy_model_world =
     ([SpacyEmbeddings ''en_core_web_sm''],
      Inl (LibraryError ''E050: cannot find model en_core_web_sm''))"
  by (simp add: spacy_embedding_def eval_defs missing_spacy_model_world_def example_world_def)

lemma insufficient_privileges_run:
  "oracleai_demo insufficient_privileges_world =
     ([Connect ''SYSTEM'' [] [], Enter 1, Cursor 1, Enter 2, Execute 2 Plsql_Create_Demo_User,
       Exit 2 (Some (LibraryError ''ORA-01031: insufficient privileges'')),
       Exit 1 (Some (LibraryError ''ORA-01031: insufficient privileges''))],
      Inl (LibraryError ''ORA-01031: insufficient privileges''))"
  by (simp add: oracleai_demo_def cell_defs eval_defs insufficient_privileges_world_def
      example_world_def outcome_def calls_def)

lemma closing_fails_run:
  "oracleai_demo closing_fails_world =
     ([Connect ''SYSTEM'' [] [], Enter 1, Cursor 1, Enter 2, Execute 2 Plsql_Create_Demo_User,
       Exit 2 (Some (LibraryError ''ORA-01031: insufficient privileges'')),
       Exit 1 (Some (LibraryError ''DPY-1001: not connected''))],
      Inl (LibraryError ''DPY-1001: not connected''))"
  by (simp add: oracleai_demo_def cell_defs eval_defs closing_fails_world_def
      insufficient_privileges_world_def example_world_def outcome_def calls_def)

lemma closing_fails_execute:
  "failure closing_fails_world (Execute 2 Plsql_Create_Demo_User) =
     Some (LibraryError ''ORA-01031: insufficient privileges'')"
  by (simp add: closing_fails_world_def insufficient_privileges_world_def example_world_def)

theorem exit_replaces_failure_counterexample:
  "\<not> propagates closing_fails_world (oracleai_demo closing_fails_world)"
proof
  assume "propagates closing_fails_world (oracleai_demo closing_fails_world)"
  then have "outcome (oracleai_demo closing_fails_world) =
               Inl (LibraryError ''ORA-01031: insufficient privileges'')"
    unfolding propagates_def using closing_fails_execute
    by (simp add: closing_fails_run)
  then show False by (simp add: closing_fails_run)
qed

lemma failures_closing_fails:
  "failures closing_fails_world (calls (oracleai_demo closing_fails_world)) =
     [LibraryError ''ORA-01031: insufficient privileges'',
      LibraryError ''DPY-1001: not connected'']"
  unfolding closing_fails_run
  by (simp add: failures_def closing_fails_world_def insufficient_privileges_world_def
      example_world_def)

theorem failures_surface_witness:
  "calls (oracleai_demo insufficient_privileges_world) =
     [Connect ''SYSTEM'' [] [], Enter 1, Cursor 1, Enter 2, Execute 2 Plsql_Create_Demo_User,
      Exit 2 (Some (LibraryError ''ORA-01031: insufficient privileges'')),
      Exit 1 (Some (LibraryError ''ORA-01031: insufficient privileges''))] \<and>
   failure insufficient_privileges_world (Execute 2 Plsql_Create_Demo_User) =
     Some (LibraryError ''ORA-01031: insufficient privileges'') \<and>
   failure insufficient_privileges_world
     (Exit 2 (Some (LibraryError ''ORA-01031: insufficient privileges''))) = None \<and>
   failure insufficient_privileges_world
     (Exit 1 (Some (LibraryError ''ORA-01031: insufficient privileges''))) = None \<and>
   outcome (oracleai_demo insufficient_privileges_world) =
     Inl (LibraryError ''ORA-01031: insufficient privileges'') \<and>
   failures closing_fails_world (calls (oracleai_demo closing_fails_world)) =
     [LibraryError ''ORA-01031: insufficient privileges'',
      LibraryError ''DPY-1001: not connected''] \<and>
   outcome (oracleai_demo closing_fails_world) = Inl (LibraryError ''DPY-1001: not connected'') \<and>
   failure missing_model_world (Load_Onnx_Model 1 ''DEMO_PY_DIR'' ''tinybert.onnx'' ''demo_model'')
     = Some (LibraryError ''ORA-20000: model file not found'') \<and>
   outcome (oracleai_demo missing_model_world) =
     Inl (LibraryError ''ORA-20000: model file not found'') \<and>
   failure missing_spacy_model_world (SpacyEmbeddings ''en_core_web_sm'') =
     Some (LibraryError ''E050: cannot find model en_core_web_sm'') \<and>
   outcome (spacy_embedding missing_spacy_model_world) =
     Inl (LibraryError ''E050: cannot find model en_core_web_sm'')"
proof -
  let ?w = insufficient_privileges_world
  let ?e = "LibraryError ''ORA-01031: insufficient privileges''"
  have cs: "calls (oracleai_demo ?w) =
     [Connect ''SYSTEM'' [] [], Enter 1, Cursor 1, Enter 2, Execute 2 Plsql_Create_Demo_User,
      Exit 2 (Some ?e), Exit 1 (Some ?e)]"
    by (simp add: insufficient_privileges_run)
  have f: "failure ?w (Execute 2 Plsql_Create_Demo_User) = Some ?e"
    "failure ?w (Exit 2 (Some ?e)) = None" "failure ?w (Exit 1 (Some ?e)) = None"
    by (simp_all add: insufficient_privileges_world_def example_world_def)
  have quiet: "\<forall>c\<in>set (calls (oracleai_demo ?w)). is_unwinding c \<longrightarrow> failure ?w c = None"
    unfolding cs using f by simp
  have mem: "Execute 2 Plsql_Create_Demo_User \<in> set (calls (oracleai_demo ?w))"
    unfolding cs by simp
  from failures_surface [of ?w] quiet mem f(1)
  have o1: "outcome (oracleai_demo ?w) = Inl ?e" by blast
  from failures_surface [of closing_fails_world] failures_closing_fails
  have o2: "outcome (oracleai_demo closing_fails_world) =
              Inl (LibraryError ''DPY-1001: not connected'')"
    by simp
  let ?m = missing_model_world
  let ?c = "Load_Onnx_Model 1 ''DEMO_PY_DIR'' ''tinybert.onnx'' ''demo_model''"
  have mf: "failure ?m ?c = Some (LibraryError ''ORA-20000: model file not found'')"
    by (simp add: missing_model_world_def example_world_def)
  have mmem: "?c \<in> set (calls (oracleai_demo ?m))"
    by (simp add: missing_model_run)
  have mquiet: "\<forall>c\<in>set (calls (oracleai_demo ?m)). is_unwinding c \<longrightarrow> failure ?m c = None"
    by (simp add: missing_model_run)
  from failures_surface [of ?m] mquiet mmem mf
  have o3: "outcome (oracleai_demo ?m) = Inl (LibraryError ''ORA-20000: model file not found'')"
    by blast
  let ?s = missing_spacy_model_world
  have sf: "failure ?s (SpacyEmbeddings ''en_core_web_sm'') =
              Some (LibraryError ''E050: cannot find model en_core_web_sm'')"
    by (simp add: missing_spacy_model_world_def example_world_def)
  have smem: "SpacyEmbeddings ''en_core_web_sm'' \<in> set (calls (spacy_embedding ?s))"
    by (simp add: missing_spacy_model_run)
  from failures_surface [of ?s] smem sf
  have o4: "outcome (spacy_embedding ?s) =
              Inl (LibraryError ''E050: cannot find model en_core_web_sm'')"
    by blast
  from cs f o1 o2 failures_closing_fails mf o3 sf o4 show ?thesis by simp
qed

section \<open>A run that completes\<close>

lemma oracleai_demo_success:
  assumes "outcome (oracleai_demo w) = Inr v"
  obtains connection h docs list_summary splitter list_chunks embedder embeddings
    connection' embedder' h' cwm vectorstore
  where "outcome (create_demo_user w) = Inr ()"
    and "outcome (connect_to_demo_user w) = Inr connection"
    and "outcome (populate_demo_table w connection) = Inr ()"
    and "outcome (load_the_onnx_model w connection) = Inr ()"
    and "outcome (create_credential w connection) = Inr ()"
    and "outcome (load_documents w empty_heap connection) = Inr (h, docs)"
    and "outcome (generate_summary w connection [] docs) = Inr list_summary"
    and "outcome (split_documents w connection docs) = Inr (splitter, list_chunks)"
    and "outcome (generate_embeddings w connection [] splitter docs) = Inr (embedder, embeddings)"
    and "outcome (process_documents w h docs) = Inr (connection', embedder', h', cwm)"
    and "outcome (create_vector_store w h' cwm embedder' connection') = Inr vectorstore"
    and "outcome (create_the_index w connection' vectorstore) = Inr ()"
    and "outcome (perform_semantic_search w vectorstore) = Inr ()"
    and "v = \<lparr>docs_of = docs, list_summary_of = list_summary, list_chunks_of = list_chunks,
              embeddings_of = embeddings, chunks_with_mdata_of = cwm,
              heap_of = h', vectorstore_of = vectorstore\<rparr>"
    and "calls (oracleai_demo w) =
           calls (create_demo_user w) @ calls (connect_to_demo_user w) @
           calls (populate_demo_table w connection) @ calls (load_the_onnx_model w connection) @
           calls (create_credential w connection) @ calls (load_documents w empty_heap connection) @
           calls (generate_summary w connection [] docs) @ calls (split_documents w connection docs) @
           calls (generate_embeddings w connection [] splitter docs) @
           calls (process_documents w h docs) @
           calls (create_vector_store w h' cwm embedder' connection') @
           calls (create_the_index w connection' vectorstore) @
           calls (perform_semantic_search w vectorstore)"
  using assms that unfolding oracleai_demo_def
  by (auto simp: outcome_andthen_Inr calls_andthen split: prod.splits)

lemma no_projection:
  "every_call (\<lambda>c. p c = []) r \<Longrightarrow> concat (map p (calls r)) = []"
  by (simp add: every_call_def list_all_iff)

lemma calls_oracleai_demo_before_search:
  "every_call (\<lambda>c. search_of c = []) (create_demo_user w)"
  "every_call (\<lambda>c. search_of c = []) (connect_to_demo_user w)"
  "every_call (\<lambda>c. search_of c = []) (populate_demo_table w connection)"
  "every_call (\<lambda>c. search_of c = []) (load_the_onnx_model w connection)"
  "every_call (\<lambda>c. search_of c = []) (create_credential w connection)"
  "every_call (\<lambda>c. search_of c = []) (load_documents w h connection)"
  "every_call (\<lambda>c. search_of c = []) (generate_summary w connection proxy docs)"
  "every_call (\<lambda>c. search_of c = []) (split_documents w connection docs)"
  "every_call (\<lambda>c. search_of c = []) (generate_embeddings w connection proxy splitter docs)"
  "every_call (\<lambda>c. search_of c = []) (process_documents w h docs)"
  "every_call (\<lambda>c. search_of c = []) (create_vector_store w h cwm embedder connection)"
  "every_call (\<lambda>c. search_of c = []) (create_the_index w connection vectorstore)"
  unfolding cell_defs call_defs
  by (auto intro!: every_call_intros)

lemma calls_perform_semantic_search:
  assumes "outcome (perform_semantic_search w vectorstore) = Inr u"
  shows "calls (perform_semantic_search w vectorstore) =
     [Search vectorstore Similarity_Search query 1 None None,
      Search vectorstore Similarity_Search query 1 None (Some document_filter),
      Search vectorstore Similarity_Search_With_Score query 1 None None,
      Search vectorstore Similarity_Search_With_Score query 1 None (Some document_filter),
      Search vectorstore Max_Marginal_Relevance_Search query 1 (Some (20, 1 / 2)) None,
      Search vectorstore Max_Marginal_Relevance_Search query 1 (Some (20, 1 / 2))
        (Some document_filter)]"
  using assms
  by (auto simp: perform_semantic_search_def call_search_def outcome_andthen_Inr calls_andthen)

lemma prefix_of_projection:
  assumes "every_call (\<lambda>c. p c = []) m"
    and "\<And>x. \<exists>n. concat (map p (calls (f x))) = take n xs"
  shows "\<exists>n. concat (map p (calls (andthen m f))) = take n xs"
proof (cases "outcome m")
  case (Inl e)
  then have "concat (map p (calls (andthen m f))) = take 0 xs"
    using no_projection[OF assms(1)] by (simp add: calls_andthen)
  then show ?thesis by blast
next
  case (Inr x)
  then have "concat (map p (calls (andthen m f))) = concat (map p (calls (f x)))"
    using no_projection[OF assms(1)] by (simp add: calls_andthen)
  with assms(2)[of x] show ?thesis by simp
qed

lemma searches_perform_semantic_search:
  "\<exists>n. searches (calls (perform_semantic_search w vectorstore)) = take n search_calls"
proof -
  have "searches (calls (perform_semantic_search w vectorstore)) \<in>
          {take 1 search_calls, take 2 search_calls, take 3 search_calls, take 4 search_calls,
           take 5 search_calls, take 6 search_calls}"
    by (simp add: perform_semantic_search_def call_search_def calls_andthen searches_def
        search_calls_def split: sum.splits)
  then show ?thesis by blast
qed

lemma searches_after_processing:
  "\<exists>n. concat (map search_of (calls
          (andthen (create_vector_store w h cwm embedder connection) (\<lambda>vectorstore.
           andthen (create_the_index w connection vectorstore) (\<lambda>_.
           andthen (perform_semantic_search w vectorstore) (\<lambda>_. ret (f vectorstore))))))) =
        take n search_calls"
  apply (rule prefix_of_projection, rule calls_oracleai_demo_before_search)
  apply (rule prefix_of_projection, rule calls_oracleai_demo_before_search)
  using searches_perform_semantic_search [of w, unfolded searches_def]
  apply (auto simp: calls_andthen split: sum.splits)
  done

lemma searches_oracleai_demo:
  "\<exists>n. searches (calls (oracleai_demo w)) = take n search_calls"
  unfolding oracleai_demo_def searches_def case_prod_beta
  apply (rule prefix_of_projection, rule calls_oracleai_demo_before_search)
  apply (rule prefix_of_projection, rule calls_oracleai_demo_before_search)
  apply (rule prefix_of_projection, rule calls_oracleai_demo_before_search)
  apply (rule prefix_of_projection, rule calls_oracleai_demo_before_search)
  apply (rule prefix_of_projection, rule calls_oracleai_demo_before_search)
  apply (rule prefix_of_projection, rule calls_oracleai_demo_before_search)
  apply (rule prefix_of_projection, rule calls_oracleai_demo_before_search)
  apply (rule prefix_of_projection, rule calls_oracleai_demo_before_search)
  apply (rule prefix_of_projection, rule calls_oracleai_demo_before_search)
  apply (rule prefix_of_projection, rule calls_oracleai_demo_before_search)
  apply (rule searches_after_processing)
  done

text \<open>
  Claim C3. Every vector-store search call is one of the four variants of the
  specification, and the Perform Semantic Search cell exercises each of the four. In any
  run of the notebook, whether it completes or not, the search calls made are an initial
  part of the six calls of that cell: \<^verbatim>\<open>similarity_search\<close> without and with a filter (the
  plain and the filtered variant), \<^verbatim>\<open>similarity_search_with_score\<close> without and with a
  filter (scored, twice), \<^verbatim>\<open>max_marginal_relevance_search\<close> without and with a filter
  (max-marginal-relevance, twice). When the cell completes, and so when the notebook does,
  all six calls are made, in this order.
\<close>

theorem search_variants:
  "(\<exists>n. searches (calls (oracleai_demo w)) = take n search_calls) \<and>
   map variant_of search_calls =
     [Plain_Similarity, Filtered_Similarity, Scored_Similarity, Scored_Similarity,
      Max_Marginal_Relevance, Max_Marginal_Relevance] \<and>
   (outcome (perform_semantic_search w vectorstore) = Inr u \<longrightarrow>
      searches (calls (perform_semantic_search w vectorstore)) = search_calls) \<and>
   (outcome (oracleai_demo w) = Inr v \<longrightarrow> searches (calls (oracleai_demo w)) = search_calls)"
proof -
  have a: "searches (calls (perform_semantic_search w vectorstore)) = search_calls"
    if "outcome (perform_semantic_search w vectorstore) = Inr u" for vectorstore u
    unfolding calls_perform_semantic_search [OF that]
    by (simp add: searches_def search_calls_def)
  have b: "searches (calls (oracleai_demo w)) = search_calls"
    if "outcome (oracleai_demo w) = Inr v"
  proof -
    from that obtain vectorstore where
      s: "outcome (perform_semantic_search w vectorstore) = Inr ()" and
      c: "searches (calls (oracleai_demo w)) =
            searches (calls (perform_semantic_search w vectorstore))"
      by (rule oracleai_demo_success)
         (simp add: searches_def calls_oracleai_demo_before_search [THEN no_projection])
    show ?thesis unfolding c by (rule a [OF s])
  qed
  have c: "map variant_of search_calls =
     [Plain_Similarity, Filtered_Similarity, Scored_Similarity, Scored_Similarity,
      Max_Marginal_Relevance, Max_Marginal_Relevance]"
    by (simp add: search_calls_def)
  from searches_oracleai_demo a b c show ?thesis by blast
qed

theorem search_variants_witness:
  "outcome (perform_semantic_search example_world 7) = Inr () \<and>
   outcome (oracleai_demo example_world) = Inr example_variables \<and>
   map variant_of (searches (calls (perform_semantic_search example_world 7))) =
     [Plain_Similarity, Filtered_Similarity, Scored_Similarity, Scored_Similarity,
      Max_Marginal_Relevance, Max_Marginal_Relevance] \<and>
   map variant_of (searches (calls (oracleai_demo example_world))) =
     [Plain_Similarity, Filtered_Similarity, Scored_Similarity, Scored_Similarity,
      Max_Marginal_Relevance, Max_Marginal_Relevance]"
proof -
  have cell: "outcome (perform_semantic_search example_world 7) = Inr ()"
    by (simp add: perform_semantic_search_def eval_defs example_world_def outcome_def)
  have ev: "outcome (oracleai_demo example_world) = Inr example_variables"
    by (simp add: example_run)
  from search_variants [of example_world 7 "()" example_variables] cell ev
  show ?thesis by simp
qed

lemma embed_documents_Inr:
  "embed_documents w embedder ts = Inr vs \<Longrightarrow>
   list_all2 (\<lambda>t v. embed_document w embedder t = Inr v) ts vs"
  by (induction ts arbitrary: vs) (auto split: sum.splits)

text \<open>
  Claim C6. The spaCy notebook makes exactly two kinds of embedding call: the batch call
  \<^verbatim>\<open>embed_documents\<close> on the list of the four example texts, and the single-query call
  \<^verbatim>\<open>embed_query\<close> on one text. In every run no other embedding call is made, and in a run
  that completes each is made once, on the embedder that the constructor returned; what
  the cell keeps is what the two calls returned: from the batch call one embedding per
  text, the embedding of each of the four texts in order, and from the single-query call
  one embedding.
\<close>

theorem spacy_embedding_calls:
  "(\<forall>c\<in>set (embedding_calls (calls (spacy_embedding w))).
      c = Batch texts \<or> c = Single (PStr ''Quick foxes and lazy dogs.'')) \<and>
   (\<forall>embeddings query_embedding.
      outcome (spacy_embedding w) = Inr (embeddings, query_embedding) \<longrightarrow>
      (\<exists>embedder.
         calls (spacy_embedding w) =
           [SpacyEmbeddings ''en_core_web_sm'', Embed_Documents embedder texts,
            Embed_Query embedder (PStr ''Quick foxes and lazy dogs.'')] \<and>
         embed_documents w embedder texts = Inr embeddings \<and>
         length embeddings = length texts \<and>
         list_all2 (\<lambda>t v. embed_document w embedder t = Inr v) texts embeddings \<and>
         embed_query w embedder (PStr ''Quick foxes and lazy dogs.'') = Inr query_embedding))"
proof -
  let ?ok = "\<lambda>c. c = Batch texts \<or> c = Single (PStr ''Quick foxes and lazy dogs.'')"
  have "every_call (\<lambda>c. list_all ?ok (embedding_of c)) (spacy_embedding w)"
    unfolding spacy_embedding_def call_defs
    by (intro every_call_intros; simp)
  then have a: "\<forall>c\<in>set (embedding_calls (calls (spacy_embedding w))). ?ok c"
    by (simp add: every_call_def embedding_calls_def list_all_iff)
  have b: "\<exists>embedder.
         calls (spacy_embedding w) =
           [SpacyEmbeddings ''en_core_web_sm'', Embed_Documents embedder texts,
            Embed_Query embedder (PStr ''Quick foxes and lazy dogs.'')] \<and>
         embed_documents w embedder texts = Inr embeddings \<and>
         length embeddings = length texts \<and>
         list_all2 (\<lambda>t v. embed_document w embedder t = Inr v) texts embeddings \<and>
         embed_query w embedder (PStr ''Quick foxes and lazy dogs.'') = Inr query_embedding"
    if "outcome (spacy_embedding w) = Inr (embeddings, query_embedding)"
    for embeddings query_embedding
  proof -
    from that obtain embedder where
      c: "calls (spacy_embedding w) =
           [SpacyEmbeddings ''en_core_web_sm'', Embed_Documents embedder texts,
            Embed_Query embedder (PStr ''Quick foxes and lazy dogs.'')]" and
      d: "embed_documents w embedder texts = Inr embeddings" and
      q: "embed_query w embedder (PStr ''Quick foxes and lazy dogs.'') = Inr query_embedding"
      by (auto simp: spacy_embedding_def call_defs outcome_andthen_Inr calls_andthen)
    note l = embed_documents_Inr [OF d]
    from l have "length embeddings = length texts" by (simp add: list_all2_lengthD)
    with c d q l show ?thesis by blast
  qed
  from a b show ?thesis by blast
qed

lemma example_spacy_run:
  "spacy_embedding example_world =
     ([SpacyEmbeddings ''en_core_web_sm'', Embed_Documents 8 texts,
       Embed_Query 8 (PStr ''Quick foxes and lazy dogs.'')],
      Inr ([44, 40, 36, 36], 26))"
  by (simp add: spacy_embedding_def eval_defs example_world_def texts_def)

theorem spacy_embedding_calls_witness:
  "outcome (spacy_embedding example_world) = Inr ([44, 40, 36, 36], 26) \<and>
   embedding_calls (calls (spacy_embedding example_world)) =
     [Batch texts, Single (PStr ''Quick foxes and lazy dogs.'')] \<and>
   length [44, 40, 36, 36 :: nat] = length texts"
proof -
  have ev: "outcome (spacy_embedding example_world) = Inr ([44, 40, 36, 36], 26)"
    by (simp add: example_spacy_run)
  from spacy_embedding_calls [of example_world] ev
  obtain embedder where
    "calls (spacy_embedding example_world) =
       [SpacyEmbeddings ''en_core_web_sm'', Embed_Documents embedder texts,
        Embed_Query embedder (PStr ''Quick foxes and lazy dogs.'')]" and
    len: "length [44, 40, 36, 36 :: nat] = length texts"
    by blast
  then have "embedding_calls (calls (spacy_embedding example_world)) =
     [Batch texts, Single (PStr ''Quick foxes and lazy dogs.'')]"
    by (simp add: embedding_calls_def)
  with ev len show ?thesis by simp
qed

section \<open>The order of the steps\<close>

lemma calls_call [simp]:
  "calls (call_connect w user password dsn) = [Connect user password dsn]"
  "calls (call_cursor w connection) = [Cursor connection]"
  "calls (call_execute w cur stmt) = [Execute cur stmt]"
  "calls (call_executemany w cur stmt rows) = [Executemany cur stmt rows]"
  "calls (call_commit w connection) = [Commit connection]"
  "calls (call_load_onnx_model w connection dir file name) =
     [Load_Onnx_Model connection dir file name]"
  "calls (call_OracleDocLoader w conn params) = [OracleDocLoader conn params]"
  "calls (call_load w loader) = [Load loader]"
  "calls (call_OracleSummary w conn params proxy) = [OracleSummary conn params proxy]"
  "calls (call_get_summary w summ text) = [Get_Summary summ text]"
  "calls (call_OracleTextSplitter w conn params) = [OracleTextSplitter conn params]"
  "calls (call_split_text w splitter text) = [Split_Text splitter text]"
  "calls (call_OracleEmbeddings w conn params proxy) = [OracleEmbeddings conn params proxy]"
  "calls (call_embed_query w embedder chunk) = [Embed_Query embedder chunk]"
  "calls (call_from_documents w documents embedder client table_name strategy) =
     [From_Documents documents embedder client table_name strategy]"
  "calls (call_create_index w connection vectorstore params) =
     [Create_Index connection vectorstore params]"
  "calls (call_search w vectorstore method q k mmr flt) = [Search vectorstore method q k mmr flt]"
  "calls (call_SpacyEmbeddings w model_name) = [SpacyEmbeddings model_name]"
  "calls (call_embed_documents w embedder ts) = [Embed_Documents embedder ts]"
  by (simp_all add: call_defs)

lemma outcome_call [simp]:
  "outcome (call_connect w user password dsn) = connect w user password dsn"
  "outcome (call_cursor w connection) = cursor w connection"
  "outcome (call_execute w cur stmt) = execute w cur stmt"
  "outcome (call_executemany w cur stmt rows) = executemany w cur stmt rows"
  "outcome (call_commit w connection) = commit w connection"
  "outcome (call_load_onnx_model w connection dir file name) =
     load_onnx_model w connection dir file name"
  "outcome (call_OracleDocLoader w conn params) = new_OracleDocLoader w conn params"
  "outcome (call_load w loader) = load w loader"
  "outcome (call_OracleSummary w conn params proxy) = new_OracleSummary w conn params proxy"
  "outcome (call_get_summary w summ text) = get_summary w summ text"
  "outcome (call_OracleTextSplitter w conn params) = new_OracleTextSplitter w conn params"
  "outcome (call_OracleEmbeddings w conn params proxy) = new_OracleEmbeddings w conn params proxy"
  "outcome (call_from_documents w documents embedder client table_name strategy) =
     from_documents w documents embedder client table_name strategy"
  "outcome (call_create_index w connection vectorstore params) =
     create_index w connection vectorstore params"
  "outcome (call_search w vectorstore method q k mmr flt) = search w vectorstore method q k mmr flt"
  "outcome (call_SpacyEmbeddings w model_name) = new_SpacyEmbeddings w model_name"
  "outcome (call_embed_documents w embedder ts) = embed_documents w embedder ts"
  by (simp_all add: call_defs)

lemma with_as_success:
  assumes "outcome (with_as w mgr body) = Inr x"
  obtains m v where "outcome mgr = Inr m" and "ctx_enter w m = Inr v"
    and "outcome (body v) = Inr x" and "ctx_exit w m None = Inr ()"
    and "calls (with_as w mgr body) = calls mgr @ [Enter m] @ calls (body v) @ [Exit m None]"
proof -
  from assms obtain m v where
    a: "outcome mgr = Inr m" "ctx_enter w m = Inr v" "outcome (body v) = Inr x"
       "ctx_exit w m None = Inr ()"
    unfolding outcome_with_as_Inr by blast
  then have "calls (with_as w mgr body) = calls mgr @ [Enter m] @ calls (body v) @ [Exit m None]"
    by (simp add: calls_with_as)
  with a that show thesis by blast
qed

lemma andthen_success:
  assumes "outcome (andthen m f) = Inr y"
  obtains x where "outcome m = Inr x" and "outcome (f x) = Inr y"
    and "calls (andthen m f) = calls m @ calls (f x)"
  using assms that by (auto simp: outcome_andthen_Inr calls_andthen)

lemma proj_for_each:
  assumes "\<And>x s s'. outcome (body x s) = Inr s' \<Longrightarrow> concat (map p (calls (body x s))) = tr x"
    and "outcome (for_each xs body s) = Inr s'"
  shows "concat (map p (calls (for_each xs body s))) = concat (map tr xs)"
  using assms(2)
proof (induction xs arbitrary: s)
  case Nil
  then show ?case by simp
next
  case (Cons x xs)
  from Cons.prems obtain s1 where
    a: "outcome (body x s) = Inr s1" and b: "outcome (for_each xs body s1) = Inr s'"
    by (auto simp: outcome_andthen_Inr)
  show ?case using a assms(1)[OF a] Cons.IH[OF b] by (simp add: calls_andthen)
qed

lemma concat_map_const: "concat (map (\<lambda>x. ys) xs) = concat (replicate (length xs) ys)"
  by (induction xs) auto

lemma concat_replicate_single: "concat (replicate n [a]) = replicate n a"
  by (induction n) auto

lemma steps_no_step:
  "steps (calls (populate_demo_table w connection)) = []"
  "steps (calls (load_the_onnx_model w connection)) = []"
  "steps (calls (create_credential w connection)) = []"
proof -
  have "every_call (\<lambda>c. step_of c = []) (populate_demo_table w connection)"
    "every_call (\<lambda>c. step_of c = []) (load_the_onnx_model w connection)"
    "every_call (\<lambda>c. step_of c = []) (create_credential w connection)"
    unfolding cell_defs call_defs by (auto intro!: every_call_intros)
  then show "steps (calls (populate_demo_table w connection)) = []"
    "steps (calls (load_the_onnx_model w connection)) = []"
    "steps (calls (create_credential w connection)) = []"
    by (simp_all add: steps_def no_projection)
qed

lemma steps_create_demo_user:
  assumes "outcome (create_demo_user w) = Inr u"
  shows "steps (calls (create_demo_user w)) = [Step_Connect]"
proof -
  from assms[unfolded create_demo_user_def] obtain m v where
    b: "outcome (with_as w (call_cursor w v) (\<lambda>cursor.
          call_execute w cursor Plsql_Create_Demo_User)) = Inr u" and
    c: "calls (create_demo_user w) =
          calls (call_connect w ''SYSTEM'' [] []) @ [Enter m] @
          calls (with_as w (call_cursor w v) (\<lambda>cursor.
            call_execute w cursor Plsql_Create_Demo_User)) @ [Exit m None]"
    unfolding create_demo_user_def by (rule with_as_success)
  from b obtain m' v' where
    d: "calls (with_as w (call_cursor w v) (\<lambda>cursor.
            call_execute w cursor Plsql_Create_Demo_User)) =
          calls (call_cursor w v) @ [Enter m'] @
          calls (call_execute w v' Plsql_Create_Demo_User) @ [Exit m' None]"
    by (rule with_as_success)
  show ?thesis unfolding c d by (simp add: steps_def)
qed

lemma steps_connect_to_demo_user:
  "steps (calls (connect_to_demo_user w)) = [Step_Connect]"
  by (simp add: connect_to_demo_user_def steps_def)

lemma steps_load_documents:
  "outcome (load_documents w h connection) = Inr x \<Longrightarrow>
   steps (calls (load_documents w h connection)) = [Step_Load]"
  by (auto simp: load_documents_def outcome_andthen_Inr calls_andthen steps_def)

lemma steps_generate_summary:
  assumes "outcome (generate_summary w connection proxy docs) = Inr x"
  shows "steps (calls (generate_summary w connection proxy docs)) =
           replicate (length docs) Step_Summarize"
proof -
  from assms[unfolded generate_summary_def] obtain summ where
    b: "outcome (for_each docs (\<lambda>doc list_summary.
          andthen (call_get_summary w summ (page_content doc)) (\<lambda>summary.
          ret (list_summary @ [summary]))) []) = Inr x" and
    c: "calls (generate_summary w connection proxy docs) =
          calls (call_OracleSummary w connection summary_params (Some proxy)) @
          calls (for_each docs (\<lambda>doc list_summary.
            andthen (call_get_summary w summ (page_content doc)) (\<lambda>summary.
            ret (list_summary @ [summary]))) [])"
    unfolding generate_summary_def by (rule andthen_success)
  have "concat (map step_of (calls (for_each docs (\<lambda>doc list_summary.
          andthen (call_get_summary w summ (page_content doc)) (\<lambda>summary.
          ret (list_summary @ [summary]))) []))) = concat (map (\<lambda>doc. [Step_Summarize]) docs)"
    by (rule proj_for_each[OF _ b]) (auto simp: calls_andthen outcome_andthen_Inr)
  then show ?thesis
    unfolding c by (simp add: steps_def map_replicate_const)
qed

lemma steps_split_documents:
  assumes "outcome (split_documents w connection docs) = Inr x"
  shows "steps (calls (split_documents w connection docs)) = replicate (length docs) Step_Split"
proof -
  from assms[unfolded split_documents_def] obtain splitter where
    a: "outcome (andthen (for_each docs (\<lambda>doc list_chunks.
                andthen (call_split_text w splitter (page_content doc)) (\<lambda>chunks.
                ret (list_chunks @ chunks))) []) (\<lambda>list_chunks.
          ret (splitter, list_chunks))) = Inr x" and
    c: "calls (split_documents w connection docs) =
          calls (call_OracleTextSplitter w connection splitter_params) @
          calls (andthen (for_each docs (\<lambda>doc list_chunks.
                andthen (call_split_text w splitter (page_content doc)) (\<lambda>chunks.
                ret (list_chunks @ chunks))) []) (\<lambda>list_chunks.
          ret (splitter, list_chunks)))"
    unfolding split_documents_def by (rule andthen_success)
  from a obtain list_chunks where
    b: "outcome (for_each docs (\<lambda>doc list_chunks.
                andthen (call_split_text w splitter (page_content doc)) (\<lambda>chunks.
                ret (list_chunks @ chunks))) []) = Inr list_chunks" and
    d: "calls (andthen (for_each docs (\<lambda>doc list_chunks.
                andthen (call_split_text w splitter (page_content doc)) (\<lambda>chunks.
                ret (list_chunks @ chunks))) []) (\<lambda>list_chunks.
          ret (splitter, list_chunks))) =
        calls (for_each docs (\<lambda>doc list_chunks.
                andthen (call_split_text w splitter (page_content doc)) (\<lambda>chunks.
                ret (list_chunks @ chunks))) []) @ calls (ret (splitter, list_chunks))"
    by (rule andthen_success)
  have "concat (map step_of (calls (for_each docs (\<lambda>doc list_chunks.
                andthen (call_split_text w splitter (page_content doc)) (\<lambda>chunks.
                ret (list_chunks @ chunks))) []))) = concat (map (\<lambda>doc. [Step_Split]) docs)"
    by (rule proj_for_each[OF _ b]) (auto simp: calls_andthen outcome_andthen_Inr)
  then show ?thesis
    unfolding c d by (simp add: steps_def map_replicate_const)
qed

lemma map_returned:
  "list_all2 (\<lambda>d cs. g d = Inr cs) ds css \<Longrightarrow>
   map (\<lambda>d. case g d of Inl e \<Rightarrow> [] | Inr cs \<Rightarrow> F cs) ds = map F css"
  by (induction rule: list_all2_induct) auto

lemma steps_generate_embeddings:
  assumes "outcome (generate_embeddings w connection proxy splitter docs) = Inr x"
  shows "\<exists>css. list_all2 (\<lambda>doc chunks. split_text w splitter (page_content doc) = Inr chunks)
                 docs css \<and>
               steps (calls (generate_embeddings w connection proxy splitter docs)) =
                 concat (map (\<lambda>chunks. Step_Split # replicate (length chunks) Step_Embed) css)"
proof -
  obtain embedder embeddings where x: "x = (embedder, embeddings)" by (cases x)
  from generate_embeddings_Inr[OF assms[unfolded x]] obtain css where
    css: "list_all2 (\<lambda>doc chunks. split_text w splitter (page_content doc) = Inr chunks) docs css"
    by blast
  let ?inner = "\<lambda>em chunks acc. for_each chunks (\<lambda>chunk embeddings.
                  andthen (call_embed_query w em chunk) (\<lambda>embed.
                  ret (embeddings @ [embed]))) acc"
  let ?body = "\<lambda>em doc acc. andthen (call_split_text w splitter (page_content doc)) (\<lambda>chunks.
                ?inner em chunks acc)"
  let ?tr = "\<lambda>doc. case split_text w splitter (page_content doc) of
                     Inl e \<Rightarrow> []
                   | Inr chunks \<Rightarrow> Step_Split # replicate (length chunks) Step_Embed"
  have inner: "concat (map step_of (calls (?inner em chunks acc))) =
                 replicate (length chunks) Step_Embed"
    if "outcome (?inner em chunks acc) = Inr s'" for em chunks acc s'
  proof -
    have "concat (map step_of (calls (?inner em chunks acc))) =
            concat (map (\<lambda>chunk. [Step_Embed]) chunks)"
      by (rule proj_for_each[OF _ that]) (auto simp: calls_andthen outcome_andthen_Inr)
    then show ?thesis by (simp add: map_replicate_const)
  qed
  have body: "concat (map step_of (calls (?body em doc acc))) = ?tr doc"
    if "outcome (?body em doc acc) = Inr s'" for em doc acc s'
  proof -
    from that obtain chunks where
      a: "split_text w splitter (page_content doc) = Inr chunks" and
      b: "outcome (?inner em chunks acc) = Inr s'"
      by (auto simp: outcome_andthen_Inr)
    show ?thesis using a inner[OF b] by (simp add: calls_andthen)
  qed
  from assms[unfolded generate_embeddings_def] obtain em where
    a: "outcome (andthen (for_each docs (?body em) []) (\<lambda>embeddings. ret (em, embeddings))) = Inr x"
    and c: "calls (generate_embeddings w connection proxy splitter docs) =
          calls (call_OracleEmbeddings w connection embedder_params (Some proxy)) @
          calls (andthen (for_each docs (?body em) []) (\<lambda>embeddings. ret (em, embeddings)))"
    unfolding generate_embeddings_def by (rule andthen_success)
  from a obtain es where
    b: "outcome (for_each docs (?body em) []) = Inr es" and
    d: "calls (andthen (for_each docs (?body em) []) (\<lambda>embeddings. ret (em, embeddings))) =
          calls (for_each docs (?body em) []) @ calls (ret (em, es))"
    by (rule andthen_success)
  have "concat (map step_of (calls (for_each docs (?body em) []))) = concat (map ?tr docs)"
    by (rule proj_for_each[OF body b])
  then have "steps (calls (generate_embeddings w connection proxy splitter docs)) =
               concat (map (\<lambda>chunks. Step_Split # replicate (length chunks) Step_Embed) css)"
    unfolding c d by (simp add: steps_def map_returned[OF css])
  with css show ?thesis by blast
qed

lemma steps_process_loop:
  assumes "outcome (process_loop w summary splitter docs h) = Inr x"
  shows "steps (calls (process_loop w summary splitter docs h)) =
           concat (replicate (length docs) [Step_Summarize, Step_Split])"
proof -
  have "concat (map step_of (calls (process_loop w summary splitter docs h))) =
          concat (map (\<lambda>p. [Step_Summarize, Step_Split]) (enumerate_from 1 docs))"
    unfolding process_loop_def
    by (rule proj_for_each[OF _ assms[unfolded process_loop_def]])
       (auto simp: calls_andthen outcome_andthen_Inr split: prod.splits)
  then show ?thesis by (simp add: steps_def concat_map_const)
qed

lemma steps_process_documents:
  assumes "outcome (process_documents w h docs) = Inr x"
  shows "steps (calls (process_documents w h docs)) =
           Step_Connect # concat (replicate (length docs) [Step_Summarize, Step_Split])"
proof -
  let ?body = "\<lambda>connection.
       andthen (call_load_onnx_model w connection
                  ''DEMO_PY_DIR'' ''tinybert.onnx'' ''demo_model'') (\<lambda>_.
       andthen (call_OracleDocLoader w connection e2e_loader_params) (\<lambda>loader.
       andthen (call_OracleSummary w connection e2e_summary_params None) (\<lambda>summary.
       andthen (call_OracleTextSplitter w connection e2e_splitter_params) (\<lambda>splitter.
       andthen (call_OracleEmbeddings w connection e2e_embedder_params None) (\<lambda>embedder.
       andthen (process_loop w summary splitter docs h) (\<lambda>(h', chunks_with_mdata).
       ret (connection, embedder, h', chunks_with_mdata)))))))"
  from assms[unfolded process_documents_def] obtain m v where
    b: "outcome (?body v) = Inr x" and
    c: "calls (process_documents w h docs) =
          calls (call_connect w [] [] []) @ [Enter m] @ calls (?body v) @ [Exit m None]"
    unfolding process_documents_def by (rule with_as_success)
  from b obtain summary splitter y where
    l: "outcome (process_loop w summary splitter docs h) = Inr y" and
    d: "steps (calls (?body v)) = steps (calls (process_loop w summary splitter docs h))"
    by (auto simp: outcome_andthen_Inr calls_andthen steps_def split: prod.splits)
  show ?thesis unfolding c using d steps_process_loop[OF l] by (simp add: steps_def)
qed

lemma steps_store_index_query:
  "steps (calls (create_vector_store w h cwm embedder connection)) = [Step_Store]"
  "steps (calls (create_the_index w connection vectorstore)) = [Step_Index]"
  "outcome (perform_semantic_search w vectorstore) = Inr u \<Longrightarrow>
   steps (calls (perform_semantic_search w vectorstore)) = replicate 6 Step_Query"
  by (simp_all add: create_vector_store_def create_the_index_def steps_def
      calls_perform_semantic_search eval_nat_numeral)

lemma steps_append: "steps (xs @ ys) = steps xs @ steps ys"
  by (simp add: steps_def)

lemma steps_completed_run:
  assumes "outcome (oracleai_demo w) = Inr v"
  shows "\<exists>splitter css.
           list_all2 (\<lambda>doc chunks. split_text w splitter (page_content doc) = Inr chunks)
             (docs_of v) css \<and>
           steps (calls (oracleai_demo w)) =
             [Step_Connect, Step_Connect, Step_Load] @
             replicate (length (docs_of v)) Step_Summarize @
             replicate (length (docs_of v)) Step_Split @
             concat (map (\<lambda>chunks. Step_Split # replicate (length chunks) Step_Embed) css) @
             [Step_Connect] @
             concat (replicate (length (docs_of v)) [Step_Summarize, Step_Split]) @
             [Step_Store, Step_Index] @ replicate 6 Step_Query"
proof -
  from assms obtain connection h docs list_summary splitter list_chunks embedder embeddings
    connection' embedder' h' cwm vectorstore
    where a: "outcome (create_demo_user w) = Inr ()"
    and f: "outcome (load_documents w empty_heap connection) = Inr (h, docs)"
    and g: "outcome (generate_summary w connection [] docs) = Inr list_summary"
    and s: "outcome (split_documents w connection docs) = Inr (splitter, list_chunks)"
    and e: "outcome (generate_embeddings w connection [] splitter docs) = Inr (embedder, embeddings)"
    and p: "outcome (process_documents w h docs) = Inr (connection', embedder', h', cwm)"
    and q: "outcome (perform_semantic_search w vectorstore) = Inr ()"
    and v: "v = \<lparr>docs_of = docs, list_summary_of = list_summary, list_chunks_of = list_chunks,
              embeddings_of = embeddings, chunks_with_mdata_of = cwm,
              heap_of = h', vectorstore_of = vectorstore\<rparr>"
    and c: "calls (oracleai_demo w) =
           calls (create_demo_user w) @ calls (connect_to_demo_user w) @
           calls (populate_demo_table w connection) @ calls (load_the_onnx_model w connection) @
           calls (create_credential w connection) @ calls (load_documents w empty_heap connection) @
           calls (generate_summary w connection [] docs) @ calls (split_documents w connection docs) @
           calls (generate_embeddings w connection [] splitter docs) @
           calls (process_documents w h docs) @
           calls (create_vector_store w h' cwm embedder' connection') @
           calls (create_the_index w connection' vectorstore) @
           calls (perform_semantic_search w vectorstore)"
    by (rule oracleai_demo_success)
  from steps_generate_embeddings[OF e] obtain css where
    css: "list_all2 (\<lambda>doc chunks. split_text w splitter (page_content doc) = Inr chunks) docs css"
    and se: "steps (calls (generate_embeddings w connection [] splitter docs)) =
               concat (map (\<lambda>chunks. Step_Split # replicate (length chunks) Step_Embed) css)"
    by blast
  have "steps (calls (oracleai_demo w)) =
             [Step_Connect, Step_Connect, Step_Load] @
             replicate (length docs) Step_Summarize @
             replicate (length docs) Step_Split @
             concat (map (\<lambda>chunks. Step_Split # replicate (length chunks) Step_Embed) css) @
             [Step_Connect] @
             concat (replicate (length docs) [Step_Summarize, Step_Split]) @
             [Step_Store, Step_Index] @ replicate 6 Step_Query"
    unfolding c steps_append
    by (simp only: steps_create_demo_user[OF a] steps_connect_to_demo_user steps_no_step
        steps_load_documents[OF f] steps_generate_summary[OF g] steps_split_documents[OF s] se
        steps_process_documents[OF p] steps_store_index_query(1,2)
        steps_store_index_query(3)[OF q] append.simps append_assoc)
  with css v show ?thesis by auto
qed

section \<open>What is passed on to the vector store\<close>

lemma new_documents_spec:
  assumes "new_documents h items = (h1, ds)"
  shows "fresh h1 = fresh h + length items \<and>
         (\<forall>r<fresh h. objects h1 r = objects h r) \<and>
         length ds = length items \<and>
         (\<forall>i<length items.
            page_content (ds ! i) = fst (items ! i) \<and>
            metadata (ds ! i) = fresh h + i \<and>
            objects h1 (fresh h + i) = snd (items ! i))"
  using assms
proof (induction items arbitrary: h h1 ds)
  case Nil
  then show ?case by simp
next
  case (Cons item items)
  obtain t md where item: "item = (t, md)" by (cases item)
  let ?h = "h\<lparr>objects := (objects h)(fresh h := md), fresh := fresh h + 1\<rparr>"
  from Cons.prems item obtain ds' where
    rest: "new_documents ?h items = (h1, ds')" and
    ds: "ds = \<lparr>page_content = t, metadata = fresh h\<rparr> # ds'"
    by (auto simp: new_dict_def split: prod.splits)
  note IH = Cons.IH[OF rest]
  have a: "fresh h1 = fresh h + length (item # items)" using IH by simp
  have b: "\<forall>r<fresh h. objects h1 r = objects h r" using IH by simp
  have c: "length ds = length (item # items)" using IH ds by simp
  have d: "page_content (ds ! i) = fst ((item # items) ! i) \<and>
           metadata (ds ! i) = fresh h + i \<and>
           objects h1 (fresh h + i) = snd ((item # items) ! i)"
    if "i < length (item # items)" for i
  proof (cases i)
    case 0
    have "objects h1 (fresh h) = objects ?h (fresh h)" using IH by simp
    with 0 ds item show ?thesis by simp
  next
    case (Suc i')
    with that have "i' < length items" by simp
    with IH have "page_content (ds' ! i') = fst (items ! i') \<and>
           metadata (ds' ! i') = fresh ?h + i' \<and>
           objects h1 (fresh ?h + i') = snd (items ! i')"
      by blast
    with Suc ds show ?thesis by simp
  qed
  from a b c d show ?case by blast
qed

lemma load_documents_allocated:
  assumes "outcome (load_documents w h0 connection) = Inr (h, docs)"
  shows "\<forall>doc\<in>set docs. metadata doc < fresh h"
proof -
  from assms obtain loaded_docs where "new_documents h0 loaded_docs = (h, docs)"
    by (auto simp: load_documents_def outcome_andthen_Inr)
  from new_documents_spec [OF this] have
    "fresh h = fresh h0 + length loaded_docs" "length docs = length loaded_docs"
    "\<forall>i<length loaded_docs. metadata (docs ! i) = fresh h0 + i"
    by simp_all
  then show ?thesis by (auto simp: in_set_conv_nth)
qed

lemma concat_index_decompose:
  "k < length (concat xss) \<Longrightarrow>
   \<exists>i j. i < length xss \<and> j < length (xss ! i) \<and> k = length (concat (take i xss)) + j"
proof (induction xss arbitrary: k)
  case Nil
  then show ?case by simp
next
  case (Cons xs xss)
  show ?case
  proof (cases "k < length xs")
    case True
    then have "0 < length (xs # xss) \<and> k < length ((xs # xss) ! 0) \<and>
               k = length (concat (take 0 (xs # xss))) + k"
      by simp
    then show ?thesis by blast
  next
    case False
    with Cons.prems have "k - length xs < length (concat xss)" by simp
    from Cons.IH[OF this] obtain i j where
      "i < length xss" "j < length (xss ! i)" "k - length xs = length (concat (take i xss)) + j"
      by blast
    with False have "Suc i < length (xs # xss) \<and> j < length ((xs # xss) ! Suc i) \<and>
               k = length (concat (take (Suc i) (xs # xss))) + j"
      by simp
    then show ?thesis by blast
  qed
qed

lemma no_stored_no_loaded:
  "stored (calls (create_demo_user w)) = []" "loaded w (calls (create_demo_user w)) = []"
  "stored (calls (connect_to_demo_user w)) = []" "loaded w (calls (connect_to_demo_user w)) = []"
  "stored (calls (populate_demo_table w connection)) = []"
  "loaded w (calls (populate_demo_table w connection)) = []"
  "stored (calls (load_the_onnx_model w connection)) = []"
  "loaded w (calls (load_the_onnx_model w connection)) = []"
  "stored (calls (create_credential w connection)) = []"
  "loaded w (calls (create_credential w connection)) = []"
  "stored (calls (load_documents w h connection)) = []"
  "stored (calls (generate_summary w connection proxy docs)) = []"
  "loaded w (calls (generate_summary w connection proxy docs)) = []"
  "stored (calls (split_documents w connection docs)) = []"
  "loaded w (calls (split_documents w connection docs)) = []"
  "stored (calls (generate_embeddings w connection proxy splitter docs)) = []"
  "loaded w (calls (generate_embeddings w connection proxy splitter docs)) = []"
  "stored (calls (process_documents w h docs)) = []"
  "loaded w (calls (process_documents w h docs)) = []"
  "loaded w (calls (create_vector_store w h cwm embedder connection)) = []"
  "stored (calls (create_the_index w connection vectorstore)) = []"
  "loaded w (calls (create_the_index w connection vectorstore)) = []"
  "stored (calls (perform_semantic_search w vectorstore)) = []"
  "loaded w (calls (perform_semantic_search w vectorstore)) = []"
  unfolding stored_def loaded_def cell_defs call_defs
  by (rule no_projection; auto intro!: every_call_intros)+

lemma loaded_append: "loaded w (xs @ ys) = loaded w xs @ loaded w ys"
  by (simp add: loaded_def)

lemma stored_append: "stored (xs @ ys) = stored xs @ stored ys"
  by (simp add: stored_def)

lemma stored_create_vector_store:
  "stored (calls (create_vector_store w h cwm embedder connection)) =
     map (\<lambda>d. (page_content d, objects h (metadata d))) cwm"
  by (simp add: stored_def create_vector_store_def)

lemma load_documents_Inr:
  assumes "outcome (load_documents w h0 connection) = Inr (h, docs)"
  shows "\<exists>loaded_docs.
           loaded w (calls (load_documents w h0 connection)) = loaded_docs \<and>
           new_documents h0 loaded_docs = (h, docs)"
  using assms
  by (auto simp: load_documents_def outcome_andthen_Inr calls_andthen loaded_def)


section \<open>A run that reaches the vector store\<close>

lemma no_store_before:
  "Step_Store \<notin> set (steps (calls (create_demo_user w)))"
  "Step_Store \<notin> set (steps (calls (connect_to_demo_user w)))"
  "Step_Store \<notin> set (steps (calls (populate_demo_table w connection)))"
  "Step_Store \<notin> set (steps (calls (load_the_onnx_model w connection)))"
  "Step_Store \<notin> set (steps (calls (create_credential w connection)))"
  "Step_Store \<notin> set (steps (calls (load_documents w h connection)))"
  "Step_Store \<notin> set (steps (calls (generate_summary w connection proxy docs)))"
  "Step_Store \<notin> set (steps (calls (split_documents w connection docs)))"
  "Step_Store \<notin> set (steps (calls (generate_embeddings w connection proxy splitter docs)))"
  "Step_Store \<notin> set (steps (calls (process_documents w h docs)))"
proof -
  have "every_call (\<lambda>c. Step_Store \<notin> set (step_of c)) (create_demo_user w)"
  "every_call (\<lambda>c. Step_Store \<notin> set (step_of c)) (connect_to_demo_user w)"
  "every_call (\<lambda>c. Step_Store \<notin> set (step_of c)) (populate_demo_table w connection)"
  "every_call (\<lambda>c. Step_Store \<notin> set (step_of c)) (load_the_onnx_model w connection)"
  "every_call (\<lambda>c. Step_Store \<notin> set (step_of c)) (create_credential w connection)"
  "every_call (\<lambda>c. Step_Store \<notin> set (step_of c)) (load_documents w h connection)"
  "every_call (\<lambda>c. Step_Store \<notin> set (step_of c)) (generate_summary w connection proxy docs)"
  "every_call (\<lambda>c. Step_Store \<notin> set (step_of c)) (split_documents w connection docs)"
  "every_call (\<lambda>c. Step_Store \<notin> set (step_of c)) (generate_embeddings w connection proxy splitter docs)"
  "every_call (\<lambda>c. Step_Store \<notin> set (step_of c)) (process_documents w h docs)"
    unfolding cell_defs call_defs
    by (auto intro!: every_call_intros)
  then show   "Step_Store \<notin> set (steps (calls (create_demo_user w)))"
  "Step_Store \<notin> set (steps (calls (connect_to_demo_user w)))"
  "Step_Store \<notin> set (steps (calls (populate_demo_table w connection)))"
  "Step_Store \<notin> set (steps (calls (load_the_onnx_model w connection)))"
  "Step_Store \<notin> set (steps (calls (create_credential w connection)))"
  "Step_Store \<notin> set (steps (calls (load_documents w h connection)))"
  "Step_Store \<notin> set (steps (calls (generate_summary w connection proxy docs)))"
  "Step_Store \<notin> set (steps (calls (split_documents w connection docs)))"
  "Step_Store \<notin> set (steps (calls (generate_embeddings w connection proxy splitter docs)))"
  "Step_Store \<notin> set (steps (calls (process_documents w h docs)))"
    by (auto simp: every_call_def steps_def list_all_iff)
qed

lemma oracleai_demo_reaches_store:
  assumes "Step_Store \<in> set (steps (calls (oracleai_demo w)))"
  obtains connection h docs list_summary splitter list_chunks embedder embeddings
    connection' embedder' h' cwm
  where "outcome (create_demo_user w) = Inr ()"
    and "outcome (connect_to_demo_user w) = Inr connection"
    and "outcome (populate_demo_table w connection) = Inr ()"
    and "outcome (load_the_onnx_model w connection) = Inr ()"
    and "outcome (create_credential w connection) = Inr ()"
    and "outcome (load_documents w empty_heap connection) = Inr (h, docs)"
    and "outcome (generate_summary w connection [] docs) = Inr list_summary"
    and "outcome (split_documents w connection docs) = Inr (splitter, list_chunks)"
    and "outcome (generate_embeddings w connection [] splitter docs) = Inr (embedder, embeddings)"
    and "outcome (process_documents w h docs) = Inr (connection', embedder', h', cwm)"
    and "calls (oracleai_demo w) =
           calls (create_demo_user w) @ calls (connect_to_demo_user w) @
           calls (populate_demo_table w connection) @ calls (load_the_onnx_model w connection) @
           calls (create_credential w connection) @ calls (load_documents w empty_heap connection) @
           calls (generate_summary w connection [] docs) @ calls (split_documents w connection docs) @
           calls (generate_embeddings w connection [] splitter docs) @
           calls (process_documents w h docs) @
           calls (create_vector_store w h' cwm embedder' connection') @
           (case outcome (create_vector_store w h' cwm embedder' connection') of
              Inl e \<Rightarrow> []
            | Inr vectorstore \<Rightarrow>
                calls (create_the_index w connection' vectorstore) @
                (case outcome (create_the_index w connection' vectorstore) of
                   Inl e \<Rightarrow> []
                 | Inr u \<Rightarrow> calls (perform_semantic_search w vectorstore)))"
  using assms that unfolding oracleai_demo_def
  by (auto simp: calls_andthen steps_append no_store_before split: sum.splits prod.splits)

lemma steps_perform_semantic_search:
  "\<exists>k\<le>6. steps (calls (perform_semantic_search w vectorstore)) = replicate k Step_Query"
proof -
  have "\<exists>k\<in>{1, 2, 3, 4, 5, 6}.
          steps (calls (perform_semantic_search w vectorstore)) = replicate k Step_Query"
    by (simp add: perform_semantic_search_def calls_andthen steps_def eval_nat_numeral
        split: sum.splits)
  then obtain k :: nat where k: "k \<in> {1, 2, 3, 4, 5, 6}"
    "steps (calls (perform_semantic_search w vectorstore)) = replicate k Step_Query"
    by blast
  from k(1) have "k \<le> 6" by auto
  with k(2) show ?thesis by blast
qed

lemma steps_after_store:
  "\<exists>n\<le>7. steps (case outcome (create_vector_store w h cwm embedder connection) of
              Inl e \<Rightarrow> []
            | Inr vectorstore \<Rightarrow>
                calls (create_the_index w connection vectorstore) @
                (case outcome (create_the_index w connection vectorstore) of
                   Inl e \<Rightarrow> []
                 | Inr u \<Rightarrow> calls (perform_semantic_search w vectorstore))) =
          take n (Step_Index # replicate 6 Step_Query)"
proof (cases "outcome (create_vector_store w h cwm embedder connection)")
  case (Inl e)
  then have "steps (case outcome (create_vector_store w h cwm embedder connection) of
              Inl e \<Rightarrow> []
            | Inr vectorstore \<Rightarrow>
                calls (create_the_index w connection vectorstore) @
                (case outcome (create_the_index w connection vectorstore) of
                   Inl e \<Rightarrow> []
                 | Inr u \<Rightarrow> calls (perform_semantic_search w vectorstore))) =
          take 0 (Step_Index # replicate 6 Step_Query)"
    by (simp add: steps_def)
  then show ?thesis by blast
next
  case vs: (Inr vectorstore)
  show ?thesis
  proof (cases "outcome (create_the_index w connection vectorstore)")
    case (Inl e)
    with vs have "steps (case outcome (create_vector_store w h cwm embedder connection) of
              Inl e \<Rightarrow> []
            | Inr vectorstore \<Rightarrow>
                calls (create_the_index w connection vectorstore) @
                (case outcome (create_the_index w connection vectorstore) of
                   Inl e \<Rightarrow> []
                 | Inr u \<Rightarrow> calls (perform_semantic_search w vectorstore))) =
          take 1 (Step_Index # replicate 6 Step_Query)"
      by (simp add: steps_append steps_store_index_query)
    then show ?thesis by (intro exI[of _ 1]) simp
  next
    case (Inr u)
    from steps_perform_semantic_search[of w vectorstore] obtain k where
      k: "k \<le> 6" "steps (calls (perform_semantic_search w vectorstore)) = replicate k Step_Query"
      by blast
    have "take k (replicate 6 Step_Query) = replicate k Step_Query" using k(1) by simp
    with vs Inr k have "steps (case outcome (create_vector_store w h cwm embedder connection) of
              Inl e \<Rightarrow> []
            | Inr vectorstore \<Rightarrow>
                calls (create_the_index w connection vectorstore) @
                (case outcome (create_the_index w connection vectorstore) of
                   Inl e \<Rightarrow> []
                 | Inr u \<Rightarrow> calls (perform_semantic_search w vectorstore))) =
          take (Suc k) (Step_Index # replicate 6 Step_Query)"
      by (simp add: steps_append steps_store_index_query)
    with k(1) show ?thesis by (intro exI[of _ "Suc k"]) simp
  qed
qed

lemma loaded_Nil [simp]: "loaded w [] = []"
  by (simp add: loaded_def)

lemma stored_Nil [simp]: "stored [] = []"
  by (simp add: stored_def)

lemma loaded_after_store:
  "loaded w (case outcome (create_vector_store w h cwm embedder connection) of
              Inl e \<Rightarrow> []
            | Inr vectorstore \<Rightarrow>
                calls (create_the_index w connection vectorstore) @
                (case outcome (create_the_index w connection vectorstore) of
                   Inl e \<Rightarrow> []
                 | Inr u \<Rightarrow> calls (perform_semantic_search w vectorstore))) = []"
  by (simp add: loaded_append no_stored_no_loaded split: sum.splits)

lemma stored_after_store:
  "stored (case outcome (create_vector_store w h cwm embedder connection) of
              Inl e \<Rightarrow> []
            | Inr vectorstore \<Rightarrow>
                calls (create_the_index w connection vectorstore) @
                (case outcome (create_the_index w connection vectorstore) of
                   Inl e \<Rightarrow> []
                 | Inr u \<Rightarrow> calls (perform_semantic_search w vectorstore))) = []"
  by (simp add: stored_append no_stored_no_loaded split: sum.splits)

lemma split_loaded:
  assumes "list_all2 (\<lambda>doc chunks. split_text w splitter (page_content doc) = Inr chunks) docs css"
    and "map page_content docs = map fst items"
  shows "list_all2 (\<lambda>item chunks. split_text w splitter (fst item) = Inr chunks) items css"
proof -
  from assms(2) have len: "length docs = length items" by (rule map_eq_imp_length_eq)
  have nth: "page_content (docs ! i) = fst (items ! i)" if "i < length docs" for i
    using arg_cong[OF assms(2), of "\<lambda>xs. xs ! i"] that len by simp
  show ?thesis
    using assms(1) len nth by (auto simp: list_all2_conv_all_nth)
qed

lemma load_documents_texts:
  assumes "outcome (load_documents w h0 connection) = Inr (h, docs)"
  shows "map page_content docs = map fst (loaded w (calls (load_documents w h0 connection)))"
proof -
  from load_documents_Inr[OF assms] obtain loaded_docs where
    l: "loaded w (calls (load_documents w h0 connection)) = loaded_docs" and
    n: "new_documents h0 loaded_docs = (h, docs)"
    by blast
  from new_documents_spec[OF n] have
    "length docs = length loaded_docs"
    "\<forall>i<length loaded_docs. page_content (docs ! i) = fst (loaded_docs ! i)"
    by simp_all
  then show ?thesis unfolding l by (auto intro: nth_equalityI)
qed

lemma steps_reaching_store:
  assumes "Step_Store \<in> set (steps (calls (oracleai_demo w)))"
  shows "\<exists>connection splitter css n.
           connect w ''testuser'' [] [] = Inr connection \<and>
           new_OracleTextSplitter w connection splitter_params = Inr splitter \<and>
           list_all2 (\<lambda>item chunks. split_text w splitter (fst item) = Inr chunks)
             (loaded w (calls (oracleai_demo w))) css \<and>
           n \<le> 7 \<and>
           steps (calls (oracleai_demo w)) =
             [Step_Connect, Step_Connect, Step_Load] @
             replicate (length css) Step_Summarize @
             replicate (length css) Step_Split @
             concat (map (\<lambda>chunks. Step_Split # replicate (length chunks) Step_Embed) css) @
             [Step_Connect] @
             concat (replicate (length css) [Step_Summarize, Step_Split]) @
             [Step_Store] @ take n (Step_Index # replicate 6 Step_Query)"
proof -
  from assms obtain connection h docs list_summary splitter list_chunks embedder embeddings
    connection' embedder' h' cwm
    where a: "outcome (create_demo_user w) = Inr ()"
    and b: "outcome (connect_to_demo_user w) = Inr connection"
    and f: "outcome (load_documents w empty_heap connection) = Inr (h, docs)"
    and g: "outcome (generate_summary w connection [] docs) = Inr list_summary"
    and s: "outcome (split_documents w connection docs) = Inr (splitter, list_chunks)"
    and e: "outcome (generate_embeddings w connection [] splitter docs) = Inr (embedder, embeddings)"
    and p: "outcome (process_documents w h docs) = Inr (connection', embedder', h', cwm)"
    and c: "calls (oracleai_demo w) =
           calls (create_demo_user w) @ calls (connect_to_demo_user w) @
           calls (populate_demo_table w connection) @ calls (load_the_onnx_model w connection) @
           calls (create_credential w connection) @ calls (load_documents w empty_heap connection) @
           calls (generate_summary w connection [] docs) @ calls (split_documents w connection docs) @
           calls (generate_embeddings w connection [] splitter docs) @
           calls (process_documents w h docs) @
           calls (create_vector_store w h' cwm embedder' connection') @
           (case outcome (create_vector_store w h' cwm embedder' connection') of
              Inl e \<Rightarrow> []
            | Inr vectorstore \<Rightarrow>
                calls (create_the_index w connection' vectorstore) @
                (case outcome (create_the_index w connection' vectorstore) of
                   Inl e \<Rightarrow> []
                 | Inr u \<Rightarrow> calls (perform_semantic_search w vectorstore)))"
    by (rule oracleai_demo_reaches_store)
  from steps_generate_embeddings[OF e] obtain css where
    css: "list_all2 (\<lambda>doc chunks. split_text w splitter (page_content doc) = Inr chunks) docs css"
    and se: "steps (calls (generate_embeddings w connection [] splitter docs)) =
               concat (map (\<lambda>chunks. Step_Split # replicate (length chunks) Step_Embed) css)"
    by blast
  from steps_after_store[where w=w and h=h' and cwm=cwm and embedder=embedder' and connection=connection'] obtain n where
    n: "n \<le> 7" and
    st: "steps (case outcome (create_vector_store w h' cwm embedder' connection') of
              Inl e \<Rightarrow> []
            | Inr vectorstore \<Rightarrow>
                calls (create_the_index w connection' vectorstore) @
                (case outcome (create_the_index w connection' vectorstore) of
                   Inl e \<Rightarrow> []
                 | Inr u \<Rightarrow> calls (perform_semantic_search w vectorstore))) =
          take n (Step_Index # replicate 6 Step_Query)"
    by blast
  have len: "length docs = length css" using css by (rule list_all2_lengthD)
  have ld: "loaded w (calls (oracleai_demo w)) = loaded w (calls (load_documents w empty_heap connection))"
    unfolding c loaded_append
    by (simp add: no_stored_no_loaded loaded_after_store)
  have css': "list_all2 (\<lambda>item chunks. split_text w splitter (fst item) = Inr chunks)
             (loaded w (calls (oracleai_demo w))) css"
    unfolding ld by (rule split_loaded[OF css load_documents_texts[OF f]])
  have "steps (calls (oracleai_demo w)) =
             [Step_Connect, Step_Connect, Step_Load] @
             replicate (length docs) Step_Summarize @
             replicate (length docs) Step_Split @
             concat (map (\<lambda>chunks. Step_Split # replicate (length chunks) Step_Embed) css) @
             [Step_Connect] @
             concat (replicate (length docs) [Step_Summarize, Step_Split]) @
             [Step_Store] @ take n (Step_Index # replicate 6 Step_Query)"
    unfolding c steps_append
    by (simp only: steps_create_demo_user[OF a] steps_connect_to_demo_user steps_no_step
        steps_load_documents[OF f] steps_generate_summary[OF g] steps_split_documents[OF s] se
        steps_process_documents[OF p] steps_store_index_query(1) st
        append.simps append_assoc)
  moreover have "connect w ''testuser'' [] [] = Inr connection"
    using b by (simp add: connect_to_demo_user_def)
  moreover have "new_OracleTextSplitter w connection splitter_params = Inr splitter"
    using s by (auto simp: split_documents_def outcome_andthen_Inr)
  ultimately show ?thesis using css' n len by auto
qed


text \<open>
  Claim C2, as amended. In a run of the notebook that reaches the vector-store cell, that
  is, in which \<^verbatim>\<open>OracleVS.from_documents\<close> is called, the steps of the chain are called in
  this order: connect twice (the privileged user, then the demo user), load once,
  summarize once per loaded document, split once per document, then for each document a
  split followed by one embed per chunk that the splitter of the Split Documents cell
  returns for it, then (the end-to-end cell) connect again and for
  each document a summarize followed by a split, then store once, and after it, each only
  if the call before it returned, create the index and up to six queries. The end-to-end
  cell calls neither load nor embed. In a run that completes the index is created and all
  six queries are made. So the first call of each step comes in the order of the chain,
  while later calls of earlier steps come after calls of later steps.
\<close>

theorem steps_of_the_notebook:
  "(Step_Store \<in> set (steps (calls (oracleai_demo w))) \<longrightarrow>
      (\<exists>connection splitter css n.
           connect w ''testuser'' [] [] = Inr connection \<and>
           new_OracleTextSplitter w connection splitter_params = Inr splitter \<and>
           list_all2 (\<lambda>item chunks. split_text w splitter (fst item) = Inr chunks)
             (loaded w (calls (oracleai_demo w))) css \<and>
           n \<le> 7 \<and>
           steps (calls (oracleai_demo w)) =
             [Step_Connect, Step_Connect, Step_Load] @
             replicate (length css) Step_Summarize @
             replicate (length css) Step_Split @
             concat (map (\<lambda>chunks. Step_Split # replicate (length chunks) Step_Embed) css) @
             [Step_Connect] @
             concat (replicate (length css) [Step_Summarize, Step_Split]) @
             [Step_Store] @ take n (Step_Index # replicate 6 Step_Query))) \<and>
   (outcome (oracleai_demo w) = Inr v \<longrightarrow>
      (\<exists>splitter css.
           list_all2 (\<lambda>doc chunks. split_text w splitter (page_content doc) = Inr chunks)
             (docs_of v) css \<and>
           steps (calls (oracleai_demo w)) =
             [Step_Connect, Step_Connect, Step_Load] @
             replicate (length (docs_of v)) Step_Summarize @
             replicate (length (docs_of v)) Step_Split @
             concat (map (\<lambda>chunks. Step_Split # replicate (length chunks) Step_Embed) css) @
             [Step_Connect] @
             concat (replicate (length (docs_of v)) [Step_Summarize, Step_Split]) @
             [Step_Store, Step_Index] @ replicate 6 Step_Query))"
  using steps_reaching_store [of w] steps_completed_run [of w v] by blast

theorem chain_order_counterexample:
  "\<not> in_chain_order (calls (oracleai_demo example_world))"
  by (simp add: example_run example_calls_def in_chain_order_def steps_def)

lemma closed_connection_run:
  "oracleai_demo closed_connection_world =
     (take 47 example_calls, Inl (LibraryError ''DPY-1001: not connected to database''))"
  by (simp add: oracleai_demo_def cell_defs eval_defs append_chunk_def
      closed_connection_world_def
      example_world_def example_heap_def example_docs_def empty_heap_def
      str_nat.simps digit_char_def example_heap_after_def example_chunks_with_mdata_def
      eval_nat_numeral
      example_calls_def example_variables_def example_stored_def
      loader_params_def e2e_loader_params_def summary_params_def e2e_summary_params_def
      splitter_params_def e2e_splitter_params_def embedder_params_def e2e_embedder_params_def)

lemma closed_connection_steps:
  "steps (calls (oracleai_demo closed_connection_world)) =
     [Step_Connect, Step_Connect, Step_Load, Step_Summarize, Step_Summarize,
      Step_Split, Step_Split,
      Step_Split, Step_Embed, Step_Embed, Step_Split, Step_Embed,
      Step_Connect, Step_Summarize, Step_Split, Step_Summarize, Step_Split,
      Step_Store]"
  unfolding closed_connection_run by (simp add: example_calls_def steps_def)

lemma closed_connection_loaded:
  "loaded closed_connection_world (calls (oracleai_demo closed_connection_world)) =
     [(''ab cd'', [(''_oid'', PStr ''A1'')]),
      (''ef'', [(''_oid'', PStr ''B2''), (''id'', PInt 7)])]"
  unfolding closed_connection_run
  by (simp add: example_calls_def loaded_def closed_connection_world_def example_world_def)

theorem steps_of_the_notebook_witness:
  "outcome (oracleai_demo example_world) = Inr example_variables \<and>
   steps (calls (oracleai_demo example_world)) =
     [Step_Connect, Step_Connect, Step_Load, Step_Summarize, Step_Summarize,
      Step_Split, Step_Split,
      Step_Split, Step_Embed, Step_Embed, Step_Split, Step_Embed,
      Step_Connect, Step_Summarize, Step_Split, Step_Summarize, Step_Split,
      Step_Store, Step_Index,
      Step_Query, Step_Query, Step_Query, Step_Query, Step_Query, Step_Query] \<and>
   Step_Store \<in> set (steps (calls (oracleai_demo closed_connection_world))) \<and>
   (\<exists>n. steps (calls (oracleai_demo closed_connection_world)) =
     [Step_Connect, Step_Connect, Step_Load, Step_Summarize, Step_Summarize,
      Step_Split, Step_Split,
      Step_Split, Step_Embed, Step_Embed, Step_Split, Step_Embed,
      Step_Connect, Step_Summarize, Step_Split, Step_Summarize, Step_Split,
      Step_Store] @ take n (Step_Index # replicate 6 Step_Query))"
proof -
  have ev: "outcome (oracleai_demo example_world) = Inr example_variables"
    by (simp add: example_run)
  from steps_of_the_notebook [of example_world example_variables] ev
  obtain splitter css where
    css: "list_all2 (\<lambda>doc chunks. split_text example_world splitter (page_content doc) = Inr chunks)
            example_docs css" and
    st: "steps (calls (oracleai_demo example_world)) =
             [Step_Connect, Step_Connect, Step_Load] @
             replicate (length example_docs) Step_Summarize @
             replicate (length example_docs) Step_Split @
             concat (map (\<lambda>chunks. Step_Split # replicate (length chunks) Step_Embed) css) @
             [Step_Connect] @
             concat (replicate (length example_docs) [Step_Summarize, Step_Split]) @
             [Step_Store, Step_Index] @ replicate 6 Step_Query"
    by (auto simp: example_variables_def)
  from css have "css = [[PStr ''ab'', PStr ''cd''], [PStr ''ef'']]"
    by (auto simp: example_docs_def example_world_def list_all2_Cons1)
  with st have full: "steps (calls (oracleai_demo example_world)) =
     [Step_Connect, Step_Connect, Step_Load, Step_Summarize, Step_Summarize,
      Step_Split, Step_Split,
      Step_Split, Step_Embed, Step_Embed, Step_Split, Step_Embed,
      Step_Connect, Step_Summarize, Step_Split, Step_Summarize, Step_Split,
      Step_Store, Step_Index,
      Step_Query, Step_Query, Step_Query, Step_Query, Step_Query, Step_Query]"
    by (simp add: example_docs_def eval_nat_numeral)
  have reach: "Step_Store \<in> set (steps (calls (oracleai_demo closed_connection_world)))"
    by (simp add: closed_connection_steps)
  from steps_of_the_notebook [of closed_connection_world] reach
  obtain connection' splitter' css' n where
    css': "list_all2 (\<lambda>item chunks.
              split_text closed_connection_world splitter' (fst item) = Inr chunks)
            [(''ab cd'', [(''_oid'', PStr ''A1'')]),
             (''ef'', [(''_oid'', PStr ''B2''), (''id'', PInt 7)])] css'" and
    st': "steps (calls (oracleai_demo closed_connection_world)) =
             [Step_Connect, Step_Connect, Step_Load] @
             replicate (length css') Step_Summarize @
             replicate (length css') Step_Split @
             concat (map (\<lambda>chunks. Step_Split # replicate (length chunks) Step_Embed) css') @
             [Step_Connect] @
             concat (replicate (length css') [Step_Summarize, Step_Split]) @
             [Step_Store] @ take n (Step_Index # replicate 6 Step_Query)"
    unfolding closed_connection_loaded by blast
  from css' have "css' = [[PStr ''ab'', PStr ''cd''], [PStr ''ef'']]"
    by (auto simp: closed_connection_world_def example_world_def list_all2_Cons1)
  with st' have "steps (calls (oracleai_demo closed_connection_world)) =
     [Step_Connect, Step_Connect, Step_Load, Step_Summarize, Step_Summarize,
      Step_Split, Step_Split,
      Step_Split, Step_Embed, Step_Embed, Step_Split, Step_Embed,
      Step_Connect, Step_Summarize, Step_Split, Step_Summarize, Step_Split,
      Step_Store] @ take n (Step_Index # replicate 6 Step_Query)"
    by (simp add: eval_nat_numeral)
  then have "\<exists>n. steps (calls (oracleai_demo closed_connection_world)) =
     [Step_Connect, Step_Connect, Step_Load, Step_Summarize, Step_Summarize,
      Step_Split, Step_Split,
      Step_Split, Step_Embed, Step_Embed, Step_Split, Step_Embed,
      Step_Connect, Step_Summarize, Step_Split, Step_Summarize, Step_Split,
      Step_Store] @ take n (Step_Index # replicate 6 Step_Query)"
    by (rule exI)
  with ev full reach show ?thesis by blast
qed

section \<open>Pass-through\<close>

lemma returned_Nil [simp]: "returned w [] = []"
  by (simp add: returned_def)

lemma returned_Cons [simp]: "returned w (c # cs) = results w c @ returned w cs"
  by (simp add: returned_def)

lemma returned_append [simp]: "returned w (xs @ ys) = returned w xs @ returned w ys"
  by (simp add: returned_def)


lemma passes_on_mono:
  "passes_on w K cs \<Longrightarrow> set K \<subseteq> set K' \<Longrightarrow> passes_on w K' cs"
proof (induction cs arbitrary: K K')
  case Nil
  then show ?case by simp
next
  case (Cons c cs)
  from Cons.prems have a: "list_all (\<lambda>a. a \<in> set literals \<or> a \<in> set K') (arguments c)"
    by (auto simp: list_all_iff)
  have "set (K @ results w c) \<subseteq> set (K' @ results w c)" using Cons.prems(2) by auto
  with Cons.IH[of "K @ results w c" "K' @ results w c"] Cons.prems(1)
  have "passes_on w (K' @ results w c) cs" by simp
  with a show ?case by simp
qed



lemma in_literals [simp]:
  "Str ''SYSTEM'' \<in> set literals" "Str [] \<in> set literals" "Str ''testuser'' \<in> set literals"
  "Statement Plsql_Create_Demo_User \<in> set literals"
  "Statement (Sql ''drop table if exists demo_tab'') \<in> set literals"
  "Statement (Sql ''create table demo_tab (id number, data clob)'') \<in> set literals"
  "Statement (Sql ''insert into demo_tab values (:1, :2)'') \<in> set literals"
  "Rows rows_to_insert \<in> set literals"
  "Str ''DEMO_PY_DIR'' \<in> set literals" "Str ''tinybert.onnx'' \<in> set literals"
  "Str ''demo_model'' \<in> set literals"
  "Statement Plsql_Create_Credentials \<in> set literals"
  "Dict loader_params \<in> set literals" "Dict summary_params \<in> set literals"
  "Dict splitter_params \<in> set literals" "Dict embedder_params \<in> set literals"
  "Dict e2e_loader_params \<in> set literals" "Dict e2e_summary_params \<in> set literals"
  "Dict e2e_splitter_params \<in> set literals" "Dict e2e_embedder_params \<in> set literals"
  "Proxy (Some []) \<in> set literals" "Proxy None \<in> set literals"
  "Str ''oravs'' \<in> set literals" "Strategy DOT_PRODUCT \<in> set literals"
  "Dict [(''idx_name'', PStr ''hnsw_oravs''), (''idx_type'', PStr ''HNSW'')] \<in> set literals"
  "Str query \<in> set literals" "Count 1 \<in> set literals" "Count (Suc 0) \<in> set literals"
  "Fetch None \<in> set literals"
  "Fetch (Some (20, 1 / 2)) \<in> set literals"
  "Filter None \<in> set literals" "Filter (Some document_filter) \<in> set literals"
  "Str ''en_core_web_sm'' \<in> set literals" "Texts texts \<in> set literals"
  "Val (PStr ''Quick foxes and lazy dogs.'') \<in> set literals"
  by (simp_all add: literals_def)



























lemma raises_from_ret [simp]: "raises_from w L (ret x)"
  by (simp add: raises_from_def)

lemma raises_from_raise [simp]: "raises_from w L (raise e) \<longleftrightarrow> e \<in> L"
  by (simp add: raises_from_def)































end
